theory Spec2Isabelle
  imports Main
begin

section \<open>Python values and the operations the workflows apply to them\<close>

text \<open>
  Activity results reach a workflow as deserialised JSON, and the workflows read them with
  \<^verbatim>\<open>.get\<close>, indexing, \<^verbatim>\<open>len\<close>, comparison and truth tests. A value is one of the
  JSON shapes; a dictionary is an association list, looked up from the front. Floating-point
  numbers are left out of the value type.
\<close>

datatype pyval =
    PNone
  | PBool bool
  | PInt int
  | PStr string
  | PList "pyval list"
  | PDict "(string \<times> pyval) list"

text \<open>
  The exceptions of class \<^verbatim>\<open>Exception\<close> that the modelled code can meet: a failure raised
  by an activity invocation (with its text), and the interpreter's own errors.
\<close>

datatype exn =
    ActivityError string
  | AttributeError
  | TypeError
  | IndexError
  | KeyError

text \<open>\<^verbatim>\<open>d.get(k, default)\<close>: only a dictionary has the method.\<close>

fun py_get :: "pyval \<Rightarrow> string \<Rightarrow> pyval \<Rightarrow> exn + pyval" where
  "py_get (PDict kvs) k d = Inr (case map_of kvs k of None \<Rightarrow> d | Some v \<Rightarrow> v)"
| "py_get _ k d = Inl AttributeError"

text \<open>\<^verbatim>\<open>d.get(k1, {}).get(k2, default)\<close>\<close>

definition py_get2 :: "pyval \<Rightarrow> string \<Rightarrow> string \<Rightarrow> pyval \<Rightarrow> exn + pyval" where
  "py_get2 v k1 k2 d =
     (case py_get v k1 (PDict []) of
        Inl e \<Rightarrow> Inl e
      | Inr inner \<Rightarrow> py_get inner k2 d)"

text \<open>\<^verbatim>\<open>x == 0\<close>: never raises; \<^verbatim>\<open>False == 0\<close> holds in Python.\<close>

fun py_eq_zero :: "pyval \<Rightarrow> bool" where
  "py_eq_zero (PInt n) = (n = 0)"
| "py_eq_zero (PBool b) = (\<not> b)"
| "py_eq_zero _ = False"

text \<open>\<^verbatim>\<open>x > 1\<close>: defined on numbers (a bool counts as 0 or 1), a TypeError otherwise.\<close>

fun py_gt_one :: "pyval \<Rightarrow> exn + bool" where
  "py_gt_one (PInt n) = Inr (n > 1)"
| "py_gt_one (PBool b) = Inr False"
| "py_gt_one _ = Inl TypeError"

text \<open>\<^verbatim>\<open>x[0]\<close>\<close>

fun py_index0 :: "pyval \<Rightarrow> exn + pyval" where
  "py_index0 (PList []) = Inl IndexError"
| "py_index0 (PList (x # xs)) = Inr x"
| "py_index0 (PStr []) = Inl IndexError"
| "py_index0 (PStr (c # cs)) = Inr (PStr [c])"
| "py_index0 (PDict kvs) = Inl KeyError"
| "py_index0 _ = Inl TypeError"

text \<open>\<^verbatim>\<open>len(x)\<close>\<close>

fun py_len :: "pyval \<Rightarrow> exn + nat" where
  "py_len (PList xs) = Inr (length xs)"
| "py_len (PStr s) = Inr (length s)"
| "py_len (PDict kvs) = Inr (length kvs)"
| "py_len _ = Inl TypeError"

text \<open>Truth value of a value, as \<^verbatim>\<open>if x\<close> and \<^verbatim>\<open>x or y\<close> test it.\<close>

fun py_truthy :: "pyval \<Rightarrow> bool" where
  "py_truthy PNone = False"
| "py_truthy (PBool b) = b"
| "py_truthy (PInt n) = (n \<noteq> 0)"
| "py_truthy (PStr s) = (s \<noteq> [])"
| "py_truthy (PList xs) = (xs \<noteq> [])"
| "py_truthy (PDict kvs) = (kvs \<noteq> [])"

section \<open>Run record, activity invocations and the world a run executes in\<close>

text \<open>
  One entry of \<^verbatim>\<open>results["steps"]\<close>. The entry of the exception handler carries
  \<^verbatim>\<open>str(e)\<close>, represented by the exception it is the text of.
\<close>

datatype step_record =
  StepRecord (step: string) (step_status: pyval) (step_data: "(string \<times> pyval) list")
             (step_error: "exn option")

text \<open>The text stored under \<^verbatim>\<open>results["error"]\<close>: a literal, or \<^verbatim>\<open>str(e)\<close>.\<close>

datatype error_text = Literal string | StrOf exn

text \<open>
  The \<^verbatim>\<open>results\<close> dictionary of a workflow. The keys every workflow sets at the start are
  plain fields; a key that is set only on some paths is an option, \<open>None\<close> while the key
  is absent.
\<close>

record run_record =
  workflow_id :: string
  target_id :: string
  status :: string
  steps :: "step_record list"
  findings :: "pyval option"
  summary :: "pyval option"
  sarif :: "pyval option"
  results_url :: "pyval option"
  error :: "error_text option"
  message :: "string option"

text \<open>An activity invocation: \<^verbatim>\<open>workflow.execute_activity(name, args=[...])\<close>.\<close>

datatype call = Call (activity_name: string) (activity_args: "pyval list")

text \<open>
  One entry of the trace of a run: the activity invoked, the \<^verbatim>\<open>results\<close> dictionary as it
  stood when the invocation was made, and how the invocation ended.
\<close>

datatype invocation =
  Invocation (inv_call: call) (inv_results: run_record) (inv_outcome: "exn + pyval")

text \<open>
  The state a run threads through its steps: the \<^verbatim>\<open>results\<close> dictionary, and the trace of
  the activity invocations made so far.
\<close>

record state =
  results :: run_record
  trace :: "invocation list"

definition calls :: "state \<Rightarrow> call list" where
  "calls st = map inv_call (trace st)"

text \<open>
  What a run cannot decide by itself: the identifiers \<^verbatim>\<open>workflow.info()\<close> reports, the
  outcome of an activity invocation (a returned value or a raised exception, which may depend
  on the invocations made before it), and the interpreter's \<^verbatim>\<open>str()\<close> of a value, used in
  one f-string. Retries and timeouts happen below \<^verbatim>\<open>execute_activity\<close>; the workflow sees
  the final outcome only.
\<close>

record world =
  info_workflow_id :: string
  info_run_id :: string
  activity :: "call list \<Rightarrow> call \<Rightarrow> exn + pyval"
  py_str :: "pyval \<Rightarrow> string"

definition execute_activity :: "world \<Rightarrow> call \<Rightarrow> state \<Rightarrow> (exn + pyval) \<times> state" where
  "execute_activity w c st =
     (activity w (calls st) c,
      st\<lparr>trace := trace st @ [Invocation c (results st) (activity w (calls st) c)]\<rparr>)"

definition append_step :: "step_record \<Rightarrow> state \<Rightarrow> state" where
  "append_step s st = st\<lparr>results := (results st)\<lparr>steps := steps (results st) @ [s]\<rparr>\<rparr>"

text \<open>How a run ends: it returns \<^verbatim>\<open>results\<close>, or an exception leaves it.\<close>

datatype outcome = Returned | Raised exn

text \<open>
  The handler every workflow wraps its body in:
  \<^verbatim>\<open>
  except Exception as e:
      results["status"] = "error"
      results["error"] = str(e)
      results["steps"].append({"step": "error", "status": "failed", "error": str(e)})
      raise
  \<close>
\<close>

definition handle_failure :: "exn \<Rightarrow> state \<Rightarrow> state" where
  "handle_failure e st =
     append_step (StepRecord ''error'' (PStr ''failed'') [] (Some e))
       (st\<lparr>results := (results st)\<lparr>status := ''error'', error := Some (StrOf e)\<rparr>\<rparr>)"

definition finish :: "(exn + unit) \<times> state \<Rightarrow> outcome \<times> state" where
  "finish r =
     (case r of
        (Inr u, st) \<Rightarrow> (Returned, st)
      | (Inl e, st) \<Rightarrow> (Raised e, handle_failure e st))"

definition get_target_call :: "world \<Rightarrow> string \<Rightarrow> string \<Rightarrow> call" where
  "get_target_call w tid isolation =
     Call ''get_target'' [PStr tid, PStr (info_run_id w), PStr isolation]"

definition get_target :: "world \<Rightarrow> string \<Rightarrow> string \<Rightarrow> state \<Rightarrow> (exn + pyval) \<times> state" where
  "get_target w tid isolation st = execute_activity w (get_target_call w tid isolation) st"

definition initial_results :: "world \<Rightarrow> string \<Rightarrow> run_record" where
  "initial_results w tid =
     \<lparr>workflow_id = info_workflow_id w, target_id = tid, status = ''running'', steps = [],
      findings = None, summary = None, sarif = None, results_url = None,
      error = None, message = None\<rparr>"

section \<open>The hash-cracking workflow\<close>

text \<open>
  \<^verbatim>\<open>HashCrackingWorkflow._cleanup\<close>: the cleanup activity is invoked and its failure is
  logged and dropped.
\<close>

definition cleanup_call :: "pyval \<Rightarrow> string \<Rightarrow> call" where
  "cleanup_call target_path isolation = Call ''cleanup_cache'' [target_path, PStr isolation]"

definition cleanup :: "world \<Rightarrow> pyval \<Rightarrow> state \<Rightarrow> state" where
  "cleanup w target_path st =
     snd (execute_activity w (cleanup_call target_path ''isolated'') st)"

definition sarif_call :: "pyval \<Rightarrow> pyval \<Rightarrow> call" where
  "sarif_call analysis_results target_path =
     Call ''generate_sarif_report_activity'' [analysis_results, PDict [], target_path]"

definition generate_sarif_report ::
  "world \<Rightarrow> pyval \<Rightarrow> pyval \<Rightarrow> state \<Rightarrow> (exn + pyval) \<times> state" where
  "generate_sarif_report w analysis_results target_path st =
     execute_activity w (sarif_call analysis_results target_path) st"

definition quote :: string where
  "quote = [CHR 0x27]"

definition no_match_findings :: "string \<Rightarrow> pyval" where
  "no_match_findings target_hash =
     PList [PDict
       [(''title'', PStr ''No Hash Type Identified''),
        (''description'', PStr (''The hash '' @ quote @ target_hash @ quote @
            '' could not be identified. No matching hash type was found.'')),
        (''severity'', PStr ''warning''),
        (''category'', PStr ''hash_identification''),
        (''metadata'', PDict [(''hash_input'', PStr target_hash),
                              (''status'', PStr ''no_match'')])]]"

definition no_mode_findings :: "world \<Rightarrow> pyval \<Rightarrow> exn + pyval" where
  "no_mode_findings w finding0 =
     (case py_get finding0 ''title'' (PStr ''Unknown'') of
        Inl e \<Rightarrow> Inl e
      | Inr title \<Rightarrow>
          (case py_get finding0 ''metadata'' (PDict []) of
             Inl e \<Rightarrow> Inl e
           | Inr metadata \<Rightarrow>
               Inr (PList [PDict
                 [(''title'', PStr ''No Hashcat Mode Available''),
                  (''description'', PStr (''The hash type '' @ quote @ py_str w title @ quote @
                      '' was identified but has no corresponding hashcat mode.'')),
                  (''severity'', PStr ''warning''),
                  (''category'', PStr ''hash_identification''),
                  (''metadata'', metadata)]])))"

text \<open>Lines 125 to 155: the branch for \<^verbatim>\<open>total_matches == 0\<close>.\<close>

definition abort_no_match ::
  "world \<Rightarrow> string \<Rightarrow> pyval \<Rightarrow> state \<Rightarrow> (exn + unit) \<times> state" where
  "abort_no_match w target_hash target_path st =
     (case generate_sarif_report w (PDict [(''findings'', no_match_findings target_hash)])
             target_path st of
        (Inl e, st1) \<Rightarrow> (Inl e, st1)
      | (Inr report, st1) \<Rightarrow>
          (Inr (),
           cleanup w target_path
             (st1\<lparr>results := (results st1)
                \<lparr>sarif := Some report,
                 status := ''aborted'',
                 error := Some (Literal ''No matching hash type found''),
                 findings := Some (no_match_findings target_hash)\<rparr>\<rparr>)))"

text \<open>Lines 157 to 176: the branch for \<^verbatim>\<open>total_matches > 1\<close>.\<close>

definition needs_selection ::
  "world \<Rightarrow> pyval \<Rightarrow> pyval \<Rightarrow> pyval \<Rightarrow> state \<Rightarrow> (exn + unit) \<times> state" where
  "needs_selection w hashid_results fs target_path st =
     (case generate_sarif_report w hashid_results target_path st of
        (Inl e, st1) \<Rightarrow> (Inl e, st1)
      | (Inr report, st1) \<Rightarrow>
          (case py_get hashid_results ''summary'' (PDict []) of
             Inl e \<Rightarrow> (Inl e,
                 st1\<lparr>results := (results st1)
                    \<lparr>sarif := Some report,
                     status := ''needs_selection'',
                     message := Some ''Multiple hash types identified. Please re-run with a specific hash_type parameter.'',
                     findings := Some fs\<rparr>\<rparr>)
           | Inr sm \<Rightarrow>
               (Inr (),
                cleanup w target_path
                  (st1\<lparr>results := (results st1)
                     \<lparr>sarif := Some report,
                      status := ''needs_selection'',
                      message := Some ''Multiple hash types identified. Please re-run with a specific hash_type parameter.'',
                      findings := Some fs,
                      summary := Some sm\<rparr>\<rparr>))))"

text \<open>Lines 181 to 204: one match, and its metadata has no hashcat mode.\<close>

definition abort_no_mode ::
  "world \<Rightarrow> pyval \<Rightarrow> pyval \<Rightarrow> state \<Rightarrow> (exn + unit) \<times> state" where
  "abort_no_mode w finding0 target_path st =
     (case no_mode_findings w finding0 of
        Inl e \<Rightarrow> (Inl e, st)
      | Inr nmf \<Rightarrow>
          (case generate_sarif_report w (PDict [(''findings'', nmf)]) target_path st of
             (Inl e, st1) \<Rightarrow> (Inl e, st1)
           | (Inr report, st1) \<Rightarrow>
               (Inr (),
                cleanup w target_path
                  (st1\<lparr>results := (results st1)
                     \<lparr>sarif := Some report,
                      status := ''aborted'',
                      error := Some (Literal ''No hashcat mode available for identified hash type''),
                      findings := Some nmf\<rparr>\<rparr>))))"

text \<open>
  Lines 236 to 262: the report and the upload, each inside its own
  \<^verbatim>\<open>try ... except Exception\<close> with a fallback value.
\<close>

definition report_step :: "world \<Rightarrow> call \<Rightarrow> state \<Rightarrow> state" where
  "report_step w report_call st =
     (case execute_activity w report_call st of
        (Inr report, st1) \<Rightarrow> st1\<lparr>results := (results st1)\<lparr>sarif := Some report\<rparr>\<rparr>
      | (Inl e, st1) \<Rightarrow> st1\<lparr>results := (results st1)\<lparr>sarif := Some (PDict [])\<rparr>\<rparr>)"

definition upload_call :: "world \<Rightarrow> pyval \<Rightarrow> call" where
  "upload_call w analysis_results =
     Call ''upload_results'' [PStr (info_workflow_id w), analysis_results, PStr ''json'']"

definition upload_step :: "world \<Rightarrow> pyval \<Rightarrow> state \<Rightarrow> state" where
  "upload_step w analysis_results st =
     (case execute_activity w (upload_call w analysis_results) st of
        (Inr url, st1) \<Rightarrow> st1\<lparr>results := (results st1)\<lparr>results_url := Some url\<rparr>\<rparr>
      | (Inl e, st1) \<Rightarrow> st1\<lparr>results := (results st1)\<lparr>results_url := Some PNone\<rparr>\<rparr>)"

text \<open>
  The assignments after the cleanup, lines 267 to 270. The \<^verbatim>\<open>.get\<close> calls cannot raise
  there: the analysis result has answered \<^verbatim>\<open>.get\<close> before.
\<close>

definition mark_success :: "pyval \<Rightarrow> state \<Rightarrow> (exn + unit) \<times> state" where
  "mark_success analysis_results st =
     (let st1 = st\<lparr>results := (results st)\<lparr>status := ''success''\<rparr>\<rparr> in
      case py_get analysis_results ''findings'' (PList []) of
        Inl e \<Rightarrow> (Inl e, st1)
      | Inr fs \<Rightarrow>
          (let st2 = st1\<lparr>results := (results st1)\<lparr>findings := Some fs\<rparr>\<rparr> in
           case py_get analysis_results ''summary'' (PDict []) of
             Inl e \<Rightarrow> (Inl e, st2)
           | Inr sm \<Rightarrow> (Inr (), st2\<lparr>results := (results st2)\<lparr>summary := Some sm\<rparr>\<rparr>)))"

text \<open>Lines 208 to 276: the cracking step and what follows it.\<close>

definition hashcat_call :: "pyval \<Rightarrow> string \<Rightarrow> pyval \<Rightarrow> call" where
  "hashcat_call target_path target_hash hashcat_mode =
     Call ''run_hashcat''
       [target_path, PDict [(''hash'', PStr target_hash), (''hash_type'', hashcat_mode)]]"

definition crack ::
  "world \<Rightarrow> string \<Rightarrow> pyval \<Rightarrow> pyval \<Rightarrow> state \<Rightarrow> (exn + unit) \<times> state" where
  "crack w target_hash target_path hashcat_mode st =
     (case execute_activity w
             (hashcat_call target_path target_hash hashcat_mode) st of
        (Inl e, st1) \<Rightarrow> (Inl e, st1)
      | (Inr hashcat_results, st1) \<Rightarrow>
          (case py_get hashcat_results ''status'' (PStr ''unknown'') of
             Inl e \<Rightarrow> (Inl e, st1)
           | Inr hstatus \<Rightarrow>
               (case py_get2 hashcat_results ''summary'' ''plaintext'' (PStr []) of
                  Inl e \<Rightarrow> (Inl e, st1)
                | Inr plaintext \<Rightarrow>
                    mark_success hashcat_results
                      (cleanup w target_path
                        (upload_step w hashcat_results
                          (report_step w (sarif_call hashcat_results target_path)
                            (append_step
                               (StepRecord ''hash_cracking'' hstatus
                                  [(''plaintext'', plaintext)] None)
                               st1)))))))"

text \<open>
  Lines 109 to 206: what the run does with the value the identification activity returned.
\<close>

definition after_hashid ::
  "world \<Rightarrow> string \<Rightarrow> pyval \<Rightarrow> pyval \<Rightarrow> state \<Rightarrow> (exn + unit) \<times> state" where
  "after_hashid w target_hash target_path hashid_results st =
     (case py_get2 hashid_results ''summary'' ''total_matches'' (PInt 0) of
        Inl e \<Rightarrow> (Inl e, st)
      | Inr total_matches \<Rightarrow>
          (let st1 = append_step
                       (StepRecord ''hash_identification'' (PStr ''success'')
                          [(''total_matches'', total_matches)] None) st in
           case py_get hashid_results ''findings'' (PList []) of
             Inl e \<Rightarrow> (Inl e, st1)
           | Inr fs \<Rightarrow>
               if py_eq_zero total_matches then abort_no_match w target_hash target_path st1
               else
                 (case py_gt_one total_matches of
                    Inl e \<Rightarrow> (Inl e, st1)
                  | Inr True \<Rightarrow> needs_selection w hashid_results fs target_path st1
                  | Inr False \<Rightarrow>
                      (case py_index0 fs of
                         Inl e \<Rightarrow> (Inl e, st1)
                       | Inr finding0 \<Rightarrow>
                           (case py_get2 finding0 ''metadata'' ''hashcat_mode'' PNone of
                              Inl e \<Rightarrow> (Inl e, st1)
                            | Inr hashcat_mode \<Rightarrow>
                                if hashcat_mode = PNone
                                then abort_no_mode w finding0 target_path st1
                                else crack w target_hash target_path hashcat_mode st1)))))"

text \<open>Lines 87 to 107: the hint decides whether the identification activity runs.\<close>

definition hashid_call :: "pyval \<Rightarrow> string \<Rightarrow> call" where
  "hashid_call target_path target_hash =
     Call ''run_hashid'' [target_path, PDict [(''hash'', PStr target_hash)]]"

definition determine_and_crack ::
  "world \<Rightarrow> string \<Rightarrow> int option \<Rightarrow> pyval \<Rightarrow> state \<Rightarrow> (exn + unit) \<times> state" where
  "determine_and_crack w target_hash target_hash_type target_path st =
     (case target_hash_type of
        Some mode \<Rightarrow> crack w target_hash target_path (PInt mode) st
      | None \<Rightarrow>
          (case execute_activity w (hashid_call target_path target_hash) st of
             (Inl e, st1) \<Rightarrow> (Inl e, st1)
           | (Inr hashid_results, st1) \<Rightarrow>
               after_hashid w target_hash target_path hashid_results st1))"

text \<open>\<^verbatim>\<open>HashCrackingWorkflow.run\<close>\<close>

definition hash_cracking_run ::
  "world \<Rightarrow> string \<Rightarrow> string \<Rightarrow> int option \<Rightarrow> outcome \<times> state" where
  "hash_cracking_run w tid target_hash target_hash_type =
     finish
       (case get_target w tid ''isolated''
               \<lparr>results = initial_results w tid, trace = []\<rparr> of
          (Inl e, st1) \<Rightarrow> (Inl e, st1)
        | (Inr target_path, st1) \<Rightarrow>
            determine_and_crack w target_hash target_hash_type target_path
              (append_step
                 (StepRecord ''download_target'' (PStr ''success'')
                    [(''target_path'', target_path)] None)
                 st1))"

section \<open>The binary-analysis workflow\<close>

text \<open>
  \<^verbatim>\<open>BinaryAnalysisWorkflow.run\<close>: download, Capa, report, upload, cleanup, each of the last
  three inside its own \<^verbatim>\<open>try ... except Exception\<close>.
\<close>

definition binary_report_call :: "pyval \<Rightarrow> pyval \<Rightarrow> call" where
  "binary_report_call fuzz_results target_path =
     Call ''generate_sarif_report_binary_analysis'' [fuzz_results, PDict [], target_path]"

definition capa_call :: "pyval \<Rightarrow> string \<Rightarrow> call" where
  "capa_call target_path target_file =
     Call ''run_capa'' [target_path, PDict [(''target_file'', PStr target_file)]]"

definition binary_analysis_body ::
  "world \<Rightarrow> string \<Rightarrow> pyval \<Rightarrow> state \<Rightarrow> (exn + unit) \<times> state" where
  "binary_analysis_body w target_file target_path st =
     (case execute_activity w (capa_call target_path target_file) st of
        (Inl e, st1) \<Rightarrow> (Inl e, st1)
      | (Inr fuzz_results, st1) \<Rightarrow>
          (case py_get2 fuzz_results ''summary'' ''capabilities_found'' (PInt 0) of
             Inl e \<Rightarrow> (Inl e, st1)
           | Inr capabilities_found \<Rightarrow>
               (case py_get2 fuzz_results ''summary'' ''execution_time'' (PInt 0) of
                  Inl e \<Rightarrow> (Inl e, st1)
                | Inr execution_time \<Rightarrow>
                    mark_success fuzz_results
                      (cleanup w target_path
                        (upload_step w fuzz_results
                          (report_step w (binary_report_call fuzz_results target_path)
                            (append_step
                               (StepRecord ''fuzzing'' (PStr ''success'')
                                  [(''capabilities_found'', capabilities_found),
                                   (''execution_time'', execution_time)] None)
                               st1)))))))"

definition binary_analysis_run :: "world \<Rightarrow> string \<Rightarrow> string \<Rightarrow> outcome \<times> state" where
  "binary_analysis_run w tid target_file =
     finish
       (case get_target w tid ''isolated''
               \<lparr>results = initial_results w tid, trace = []\<rparr> of
          (Inl e, st1) \<Rightarrow> (Inl e, st1)
        | (Inr target_path, st1) \<Rightarrow>
            binary_analysis_body w target_file target_path
              (append_step
                 (StepRecord ''download_target'' (PStr ''success'')
                    [(''target_path'', target_path)] None)
                 st1))"

section \<open>The LLM secret-detection workflow\<close>

record llm_params =
  agent_url :: "string option"
  llm_model :: "string option"
  llm_provider :: "string option"
  max_files :: "int option"
  max_file_size :: "int option"
  timeout :: "int option"
  file_patterns :: "pyval list option"

text \<open>Lines 62 to 76: a parameter enters the configuration when it is truthy.\<close>

definition str_entry :: "string \<Rightarrow> string option \<Rightarrow> (string \<times> pyval) list" where
  "str_entry k v = (case v of Some s \<Rightarrow> (if s \<noteq> [] then [(k, PStr s)] else []) | None \<Rightarrow> [])"

definition int_entry :: "string \<Rightarrow> int option \<Rightarrow> (string \<times> pyval) list" where
  "int_entry k v = (case v of Some n \<Rightarrow> (if n \<noteq> 0 then [(k, PInt n)] else []) | None \<Rightarrow> [])"

definition list_entry :: "string \<Rightarrow> pyval list option \<Rightarrow> (string \<times> pyval) list" where
  "list_entry k v = (case v of Some xs \<Rightarrow> (if xs \<noteq> [] then [(k, PList xs)] else []) | None \<Rightarrow> [])"

definition llm_config :: "llm_params \<Rightarrow> pyval" where
  "llm_config p =
     PDict (str_entry ''agent_url'' (agent_url p) @
            str_entry ''llm_model'' (llm_model p) @
            str_entry ''llm_provider'' (llm_provider p) @
            int_entry ''max_files'' (max_files p) @
            int_entry ''max_file_size'' (max_file_size p) @
            int_entry ''timeout'' (timeout p) @
            list_entry ''file_patterns'' (file_patterns p))"

text \<open>\<^verbatim>\<open>f"llm-secret-detector ({llm_model or 'gpt-4o-mini'})"\<close>\<close>

definition llm_tool_name :: "llm_params \<Rightarrow> string" where
  "llm_tool_name p =
     ''llm-secret-detector ('' @
       (case llm_model p of Some s \<Rightarrow> (if s \<noteq> [] then s else ''gpt-4o-mini'')
                          | None \<Rightarrow> ''gpt-4o-mini'') @ '')''"

definition llm_scan_call :: "llm_params \<Rightarrow> pyval \<Rightarrow> call" where
  "llm_scan_call p target_path = Call ''scan_with_llm'' [target_path, llm_config p]"

definition llm_report_call :: "llm_params \<Rightarrow> pyval \<Rightarrow> call" where
  "llm_report_call p fs =
     Call ''llm_generate_sarif''
       [fs, PDict [(''tool_name'', PStr (llm_tool_name p)), (''tool_version'', PStr ''1.0.0'')]]"

text \<open>
  Lines 138 to 142: the assignments after the cleanup; the last one is
  \<^verbatim>\<open>results["sarif"] = sarif_report or {}\<close>.
\<close>

definition llm_mark_success :: "pyval \<Rightarrow> pyval \<Rightarrow> state \<Rightarrow> (exn + unit) \<times> state" where
  "llm_mark_success scan_results sarif_report st =
     (case mark_success scan_results st of
        (Inl e, st1) \<Rightarrow> (Inl e, st1)
      | (Inr u, st1) \<Rightarrow>
          (Inr (),
           st1\<lparr>results := (results st1)
              \<lparr>sarif := Some (if py_truthy sarif_report then sarif_report else PDict [])\<rparr>\<rparr>))"

text \<open>
  Lines 78 to 148. The report activity of step 3 is invoked outside any
  \<^verbatim>\<open>try ... except\<close> of its own; the upload and the cleanup have one each.
\<close>

definition llm_body :: "world \<Rightarrow> llm_params \<Rightarrow> pyval \<Rightarrow> state \<Rightarrow> (exn + unit) \<times> state" where
  "llm_body w p target_path st =
     (case execute_activity w (llm_scan_call p target_path) st of
        (Inl e, st1) \<Rightarrow> (Inl e, st1)
      | (Inr scan_results, st1) \<Rightarrow>
          (case py_get scan_results ''findings'' (PList []) of
             Inl e \<Rightarrow> (Inl e, st1)
           | Inr fs \<Rightarrow>
               (case py_len fs of
                  Inl e \<Rightarrow> (Inl e, st1)
                | Inr findings_count \<Rightarrow>
                    (case execute_activity w (llm_report_call p fs)
                            (append_step
                               (StepRecord ''llm_scan'' (PStr ''success'')
                                  [(''secrets_found'', PInt (int findings_count))] None)
                               st1) of
                       (Inl e, st2) \<Rightarrow> (Inl e, st2)
                     | (Inr sarif_report, st2) \<Rightarrow>
                         llm_mark_success scan_results sarif_report
                           (snd (execute_activity w (cleanup_call target_path ''shared'')
                                   (upload_step w scan_results st2)))))))"

text \<open>
  \<^verbatim>\<open>LlmSecretDetectionWorkflow.run\<close>; its \<^verbatim>\<open>results\<close> starts with \<^verbatim>\<open>"findings": []\<close>.
\<close>

definition llm_secret_detection_run :: "world \<Rightarrow> string \<Rightarrow> llm_params \<Rightarrow> outcome \<times> state" where
  "llm_secret_detection_run w tid p =
     finish
       (case get_target w tid ''shared''
               \<lparr>results = (initial_results w tid)\<lparr>findings := Some (PList [])\<rparr>, trace = []\<rparr> of
          (Inl e, st1) \<Rightarrow> (Inl e, st1)
        | (Inr target_path, st1) \<Rightarrow>
            llm_body w p target_path
              (append_step
                 (StepRecord ''download'' (PStr ''success'')
                    [(''target_path'', target_path)] None)
                 st1))"

section \<open>The hash-identification module\<close>

text \<open>A \<^verbatim>\<open>HashInfo\<close> tuple of the hashid library.\<close>

datatype hash_info =
  HashInfo (name: string) (hashcat: "int option") (john: "string option") (extended: bool)

text \<open>
  A \<^verbatim>\<open>ModuleResult\<close>, with the fields of the activity contract. Inside the module an
  exception is its text, since \<^verbatim>\<open>str(exc)\<close> is all the module keeps of it.
\<close>

record module_result =
  mr_status :: string
  mr_findings :: "pyval list"
  mr_summary :: "(string \<times> pyval) list"
  mr_error :: "string option"

text \<open>
  Modelled from the spec: \<^verbatim>\<open>BaseModule.create_finding\<close> is not among the sources. It
  builds a Finding, the mapping \<open>{title, description, severity, category, metadata}\<close>.
\<close>

definition create_finding ::
  "string \<Rightarrow> string \<Rightarrow> string \<Rightarrow> string \<Rightarrow> (string \<times> pyval) list \<Rightarrow> pyval" where
  "create_finding title description severity category metadata =
     PDict [(''title'', PStr title), (''description'', PStr description),
            (''severity'', PStr severity), (''category'', PStr category),
            (''metadata'', PDict metadata)]"

text \<open>
  Modelled from the spec: \<^verbatim>\<open>BaseModule.create_result\<close> is not among the sources. It
  builds the result of the activity contract, \<open>{status, findings, summary, error}\<close>; a
  summary that is not given is the empty mapping.
\<close>

definition create_result ::
  "pyval list \<Rightarrow> string \<Rightarrow> (string \<times> pyval) list option \<Rightarrow> string option \<Rightarrow> module_result" where
  "create_result fs st sm err =
     \<lparr>mr_status = st, mr_findings = fs,
      mr_summary = (case sm of None \<Rightarrow> [] | Some m \<Rightarrow> m), mr_error = err\<rparr>"

text \<open>
  Modelled from the spec: \<^verbatim>\<open>ModuleResult.dict()\<close>, by which an activity hands the result
  to the workflow.
\<close>

definition module_result_dict :: "module_result \<Rightarrow> pyval" where
  "module_result_dict r =
     PDict [(''status'', PStr (mr_status r)),
            (''findings'', PList (mr_findings r)),
            (''summary'', PDict (mr_summary r)),
            (''error'', (case mr_error r of None \<Rightarrow> PNone | Some e \<Rightarrow> PStr e))]"

text \<open>\<^verbatim>\<open>HashIdIdentifier.validate_config\<close>: the hash must be present and not empty.\<close>

definition validate_config :: "string option \<Rightarrow> string + bool" where
  "validate_config hash_str =
     (case hash_str of
        None \<Rightarrow> Inl (quote @ ''hash'' @ quote @ '' must be provided for hash identification'')
      | Some s \<Rightarrow>
          if s = []
          then Inl (quote @ ''hash'' @ quote @ '' must be provided for hash identification'')
          else Inr True)"

definition opt_int :: "int option \<Rightarrow> pyval" where
  "opt_int v = (case v of None \<Rightarrow> PNone | Some n \<Rightarrow> PInt n)"

definition opt_str :: "string option \<Rightarrow> pyval" where
  "opt_str v = (case v of None \<Rightarrow> PNone | Some s \<Rightarrow> PStr s)"

text \<open>Lines 105 to 118: the Finding of the candidate at position \<open>idx\<close>.\<close>

definition candidate_finding :: "string \<Rightarrow> nat \<Rightarrow> hash_info \<Rightarrow> pyval" where
  "candidate_finding hash_str idx hash_info =
     create_finding
       (''Possible Hash Type: '' @ name hash_info)
       (''The hash '' @ quote @ hash_str @ quote @ '' may be of type: '' @ name hash_info)
       ''info''
       ''hash_identification''
       [(''hash_input'', PStr hash_str),
        (''identified_type'', PStr (name hash_info)),
        (''match_index'', PInt (int idx)),
        (''hashcat_mode'', opt_int (hashcat hash_info)),
        (''john_mode'', opt_str (john hash_info)),
        (''extended'', PBool (extended hash_info))]"

text \<open>The loop of lines 103 to 119 over \<^verbatim>\<open>enumerate(results)\<close>, from position \<open>idx\<close> on.\<close>

fun candidate_findings :: "string \<Rightarrow> nat \<Rightarrow> hash_info list \<Rightarrow> pyval list" where
  "candidate_findings hash_str idx [] = []"
| "candidate_findings hash_str idx (h # hs) =
     candidate_finding hash_str idx h # candidate_findings hash_str (Suc idx) hs"

text \<open>
  \<^verbatim>\<open>HashIdIdentifier.execute\<close>. The hashid library (\<open>identifyHash\<close>) and the workspace check
  of the base class (\<open>validate_workspace\<close>) are parameters: each returns or raises. The
  configuration is its one entry \<^verbatim>\<open>hash\<close>, a string by the module's input schema, \<open>None\<close>
  when the key is missing. Every exception ends in the \<^verbatim>\<open>failed\<close> result of lines 141 to
  147.
\<close>

definition execute ::
  "(string \<Rightarrow> string + hash_info list) \<Rightarrow> (string + unit) \<Rightarrow> string option \<Rightarrow> module_result" where
  "execute identifyHash validate_workspace hash_cfg =
     (case validate_config hash_cfg of
        Inl exc \<Rightarrow> create_result [] ''failed'' None (Some exc)
      | Inr ok \<Rightarrow>
          (case validate_workspace of
             Inl exc \<Rightarrow> create_result [] ''failed'' None (Some exc)
           | Inr u \<Rightarrow>
               (case hash_cfg of
                  None \<Rightarrow> create_result [] ''failed'' None (Some (quote @ ''hash'' @ quote))
                | Some hash_str \<Rightarrow>
                    (case identifyHash hash_str of
                       Inl exc \<Rightarrow> create_result [] ''failed'' None (Some exc)
                     | Inr hash_infos \<Rightarrow>
                         create_result
                           (candidate_findings hash_str 0 hash_infos)
                           ''success''
                           (Some [(''possible_hash_types'', PList (map (\<lambda>h. PStr (name h)) hash_infos)),
                                  (''total_matches'', PInt (int (length hash_infos)))])
                           None))))"

section \<open>Observations on a trace\<close>

text \<open>The invocations of the activity named \<open>n\<close>, in the order they were made.\<close>

definition entries :: "string \<Rightarrow> state \<Rightarrow> invocation list" where
  "entries n st = filter (\<lambda>i. activity_name (inv_call i) = n) (trace st)"

definition invoked :: "string \<Rightarrow> state \<Rightarrow> call list" where
  "invoked n st = map inv_call (entries n st)"

text \<open>
  The critical steps: the fetch and the analysis activities. The report, the upload and the
  cleanup are the best-effort ones.
\<close>

definition critical :: "call \<Rightarrow> bool" where
  "critical c =
     (activity_name c \<in> set [''get_target'', ''run_hashid'', ''run_hashcat'',
                              ''run_capa'', ''scan_with_llm''])"

definition returned :: "invocation \<Rightarrow> bool" where
  "returned i = (case inv_outcome i of Inr v \<Rightarrow> True | Inl e \<Rightarrow> False)"

text \<open>The names of the best-effort activities of the hash-cracking workflow.\<close>

definition best_effort_names :: "string set" where
  "best_effort_names =
     {''generate_sarif_report_activity'', ''upload_results'', ''cleanup_cache''}"

text \<open>The state of a hash-cracking or binary-analysis run once the fetch has returned.\<close>

definition after_fetch :: "world \<Rightarrow> string \<Rightarrow> pyval \<Rightarrow> state" where
  "after_fetch w tid target_path =
     append_step
       (StepRecord ''download_target'' (PStr ''success'') [(''target_path'', target_path)] None)
       (snd (get_target w tid ''isolated'' \<lparr>results = initial_results w tid, trace = []\<rparr>))"

text \<open>The state of an LLM secret-detection run once the fetch has returned.\<close>

definition llm_after_fetch :: "world \<Rightarrow> string \<Rightarrow> pyval \<Rightarrow> state" where
  "llm_after_fetch w tid target_path =
     append_step
       (StepRecord ''download'' (PStr ''success'') [(''target_path'', target_path)] None)
       (snd (get_target w tid ''shared''
               \<lparr>results = (initial_results w tid)\<lparr>findings := Some (PList [])\<rparr>,
                trace = []\<rparr>))"

text \<open>
  The state of a hash-cracking run once the identification has returned and its step is
  recorded.
\<close>

definition after_identification :: "world \<Rightarrow> string \<Rightarrow> string \<Rightarrow> pyval \<Rightarrow> pyval \<Rightarrow> state" where
  "after_identification w tid target_hash target_path total_matches =
     append_step
       (StepRecord ''hash_identification'' (PStr ''success'')
          [(''total_matches'', total_matches)] None)
       (snd (execute_activity w (hashid_call target_path target_hash)
               (after_fetch w tid target_path)))"

text \<open>
  What a part of a run that starts in \<open>st\<close> does about the cleanup. If it returns, it has
  attempted the cleanup once, and the status is a terminal one other than \<^verbatim>\<open>error\<close>; the
  status the cleanup saw is the final one, unless the final one is \<^verbatim>\<open>success\<close>, which is
  set after the cleanup. If an exception leaves it, it has not attempted the cleanup.
\<close>

definition cleans_once :: "state \<Rightarrow> (exn + unit) \<times> state \<Rightarrow> bool" where
  "cleans_once st r =
     ((\<not> isl (fst r) \<longrightarrow>
         (\<exists>i. entries ''cleanup_cache'' (snd r) = entries ''cleanup_cache'' st @ [i] \<and>
              status (inv_results i) =
                (if status (results (snd r)) = ''success'' then status (results st)
                 else status (results (snd r)))) \<and>
         status (results (snd r)) \<in> {''success'', ''aborted'', ''needs_selection''}) \<and>
      (isl (fst r) \<longrightarrow> entries ''cleanup_cache'' (snd r) = entries ''cleanup_cache'' st))"

text \<open>
  The cleanup over a whole run whose fetch is the invocation \<open>fetch\<close>: attempted at most
  once; exactly once when the run returns, seen by the cleanup with the final status unless
  that is \<^verbatim>\<open>success\<close>, which the cleanup sees as \<^verbatim>\<open>running\<close>; not attempted when the
  fetch raises, which ends the run with status \<^verbatim>\<open>error\<close>.
\<close>

definition cleanup_rule :: "world \<Rightarrow> call \<Rightarrow> outcome \<times> state \<Rightarrow> bool" where
  "cleanup_rule w fetch r =
     (length (entries ''cleanup_cache'' (snd r)) \<le> 1 \<and>
      (fst r = Returned \<longrightarrow>
         (\<exists>i. entries ''cleanup_cache'' (snd r) = [i] \<and>
              status (inv_results i) =
                (if status (results (snd r)) = ''success'' then ''running''
                 else status (results (snd r)))) \<and>
         status (results (snd r)) \<in> {''success'', ''aborted'', ''needs_selection''}) \<and>
      (\<forall>e. activity w [] fetch = Inl e \<longrightarrow>
         fst r = Raised e \<and> status (results (snd r)) = ''error'' \<and>
         entries ''cleanup_cache'' (snd r) = []))"

text \<open>
  Where a part of a hash-cracking run that starts in \<open>st\<close> can go: it is the cracking step,
  entered after invocations that all returned and with the status untouched; or it ends
  without invoking the cracking activity, the status untouched or set to \<^verbatim>\<open>aborted\<close> or
  \<^verbatim>\<open>needs_selection\<close>.
\<close>

definition crack_or_stop ::
  "world \<Rightarrow> string \<Rightarrow> pyval \<Rightarrow> state \<Rightarrow> (exn + unit) \<times> state \<Rightarrow> bool" where
  "crack_or_stop w h tp st r =
     ((\<exists>m st' new. r = crack w h tp m st' \<and> trace st' = trace st @ new \<and>
                    list_all returned new \<and>
                    list_all (\<lambda>i. activity_name (inv_call i) \<noteq> ''run_hashcat'') new \<and>
                    status (results st') = status (results st)) \<or>
      (entries ''run_hashcat'' (snd r) = entries ''run_hashcat'' st \<and>
       status (results (snd r)) \<in> {status (results st), ''aborted'', ''needs_selection''}))"

text \<open>
  What the status of a hash-cracking run says about its critical activities. The status is
  \<^verbatim>\<open>success\<close> only if the run returned and every critical activity it invoked returned, the
  cracking activity among them. A cracking activity that raised ends the run by an exception
  with status \<^verbatim>\<open>error\<close>. A cracking activity that returned a result the workflow can read
  gives status \<^verbatim>\<open>success\<close>, the result's own status field going to the last step record.
\<close>

definition success_rule :: "outcome \<times> state \<Rightarrow> bool" where
  "success_rule r =
     ((status (results (snd r)) = ''success'' \<longrightarrow>
         fst r = Returned \<and>
         (\<forall>i \<in> set (trace (snd r)). critical (inv_call i) \<longrightarrow> returned i) \<and>
         entries ''run_hashcat'' (snd r) \<noteq> []) \<and>
      (\<forall>i \<in> set (entries ''run_hashcat'' (snd r)).
         \<forall>e. inv_outcome i = Inl e \<longrightarrow>
           fst r = Raised e \<and> status (results (snd r)) = ''error'') \<and>
      (\<forall>i \<in> set (entries ''run_hashcat'' (snd r)).
         \<forall>hr hstatus plaintext.
           inv_outcome i = Inr hr \<and>
           py_get hr ''status'' (PStr ''unknown'') = Inr hstatus \<and>
           py_get2 hr ''summary'' ''plaintext'' (PStr []) = Inr plaintext \<longrightarrow>
             fst r = Returned \<and> status (results (snd r)) = ''success'' \<and>
             last (steps (results (snd r))) =
               StepRecord ''hash_cracking'' hstatus [(''plaintext'', plaintext)] None))"

section \<open>Sample worlds\<close>

text \<open>
  A world given by a table from activity names to outcomes; an activity the table does not
  list raises. Its \<open>py_str\<close> is right on strings, the only values the samples apply it to.
\<close>

definition scripted :: "(string \<times> (exn + pyval)) list \<Rightarrow> world" where
  "scripted script =
     \<lparr>info_workflow_id = ''wf-1'', info_run_id = ''run-1'',
      activity = (\<lambda>history c. case map_of script (activity_name c) of
                                 None \<Rightarrow> Inl (ActivityError ''activity not registered'')
                               | Some r \<Rightarrow> r),
      py_str = (\<lambda>v. case v of PStr s \<Rightarrow> s | _ \<Rightarrow> [])\<rparr>"

definition md5_hash :: string where
  "md5_hash = ''5f4dcc3b5aa765d61d8327deb882cf99''"

definition md5_info :: hash_info where
  "md5_info = HashInfo ''MD5'' (Some 0) (Some ''raw-md5'') False"

definition md4_info :: hash_info where
  "md4_info = HashInfo ''MD4'' (Some 900) (Some ''raw-md4'') False"

definition md2_info :: hash_info where
  "md2_info = HashInfo ''MD2'' None (Some ''md2'') False"

text \<open>What the identification module hands over when the library reports these candidates.\<close>

definition identified :: "hash_info list \<Rightarrow> pyval" where
  "identified infos = module_result_dict (execute (\<lambda>h. Inr infos) (Inr ()) (Some md5_hash))"

text \<open>What it hands over when the library raises.\<close>

definition identification_failed :: pyval where
  "identification_failed =
     module_result_dict (execute (\<lambda>h. Inl ''hashid crashed'') (Inr ()) (Some md5_hash))"

definition cracked_result :: pyval where
  "cracked_result =
     PDict [(''status'', PStr ''success''),
            (''findings'', PList [PDict [(''title'', PStr ''Cracked Hash'')]]),
            (''summary'', PDict [(''plaintext'', PStr ''password'')]),
            (''error'', PNone)]"

definition failed_crack_result :: pyval where
  "failed_crack_result =
     PDict [(''status'', PStr ''failed''),
            (''findings'', PList []),
            (''summary'', PDict []),
            (''error'', PStr ''Hashcat failed with exit code 1: No error output'')]"

definition scan_result :: pyval where
  "scan_result =
     PDict [(''status'', PStr ''success''),
            (''findings'', PList [PDict [(''title'', PStr ''Hardcoded API key'')]]),
            (''summary'', PDict [(''files_scanned'', PInt 3)]),
            (''error'', PNone)]"

definition sample_report :: pyval where
  "sample_report = PDict [(''version'', PStr ''2.1.0'')]"

text \<open>Every activity returns; the identification finds the one candidate MD5.\<close>

definition all_return :: "(string \<times> (exn + pyval)) list" where
  "all_return =
     [(''get_target'', Inr (PStr ''/cache/t1'')),
      (''run_hashid'', Inr (identified [md5_info])),
      (''run_hashcat'', Inr cracked_result),
      (''run_capa'', Inr scan_result),
      (''scan_with_llm'', Inr scan_result),
      (''generate_sarif_report_activity'', Inr sample_report),
      (''generate_sarif_report_binary_analysis'', Inr sample_report),
      (''llm_generate_sarif'', Inr sample_report),
      (''upload_results'', Inr (PStr ''s3://results/wf-1.json'')),
      (''cleanup_cache'', Inr PNone)]"

text \<open>The world where every activity returns, but for the outcomes listed first.\<close>

definition world_but :: "(string \<times> (exn + pyval)) list \<Rightarrow> world" where
  "world_but changes = scripted (changes @ all_return)"

definition report_fails :: "string \<times> (exn + pyval)" where
  "report_fails = (''generate_sarif_report_activity'', Inl (ActivityError ''report failed''))"

definition fetch_fails :: "string \<times> (exn + pyval)" where
  "fetch_fails = (''get_target'', Inl (ActivityError ''download failed''))"

definition crack_fails :: "string \<times> (exn + pyval)" where
  "crack_fails = (''run_hashcat'', Inl (ActivityError ''hashcat crashed''))"

definition crack_returns_failed :: "string \<times> (exn + pyval)" where
  "crack_returns_failed = (''run_hashcat'', Inr failed_crack_result)"

definition llm_report_fails :: "string \<times> (exn + pyval)" where
  "llm_report_fails = (''llm_generate_sarif'', Inl (ActivityError ''report failed''))"

definition binary_report_fails :: "string \<times> (exn + pyval)" where
  "binary_report_fails =
     (''generate_sarif_report_binary_analysis'', Inl (ActivityError ''report failed''))"

definition upload_fails :: "string \<times> (exn + pyval)" where
  "upload_fails = (''upload_results'', Inl (ActivityError ''upload failed''))"

text \<open>The identification activity returns what the module makes of these candidates.\<close>

definition identifies :: "hash_info list \<Rightarrow> string \<times> (exn + pyval)" where
  "identifies infos = (''run_hashid'', Inr (identified infos))"

text \<open>The identification activity returns the module's \<^verbatim>\<open>failed\<close> result.\<close>

definition identification_fails_inside :: "string \<times> (exn + pyval)" where
  "identification_fails_inside = (''run_hashid'', Inr identification_failed)"

definition no_params :: llm_params where
  "no_params =
     \<lparr>agent_url = None, llm_model = None, llm_provider = None, max_files = None,
      max_file_size = None, timeout = None, file_patterns = None\<rparr>"

section \<open>The hash-identification module: count and findings\<close>

lemmas call_defs = get_target_call_def hashid_call_def hashcat_call_def sarif_call_def
  upload_call_def cleanup_call_def binary_report_call_def capa_call_def llm_scan_call_def
  llm_report_call_def

lemma length_candidate_findings: "length (candidate_findings h idx infos) = length infos"
  by (induction infos arbitrary: idx) simp_all

lemma nth_candidate_findings:
  "i < length infos \<Longrightarrow>
     candidate_findings h idx infos ! i = candidate_finding h (idx + i) (infos ! i)"
proof (induction infos arbitrary: idx i)
  case Nil
  then show ?case by simp
next
  case (Cons a infos)
  then show ?case by (cases i) simp_all
qed

lemma execute_success:
  assumes "mr_status (execute identifyHash vw cfg) = ''success''"
  obtains hash_str infos where "cfg = Some hash_str" "identifyHash hash_str = Inr infos"
    "execute identifyHash vw cfg =
       create_result (candidate_findings hash_str 0 infos) ''success''
         (Some [(''possible_hash_types'', PList (map (\<lambda>h. PStr (name h)) infos)),
                (''total_matches'', PInt (int (length infos)))]) None"
  using assms
  by (auto simp add: execute_def create_result_def split: sum.splits option.splits)

lemma py_get_dict: "py_get x k d = Inr v \<Longrightarrow> \<exists>kvs. x = PDict kvs"
  by (cases x) simp_all

lemma candidate_mode:
  "py_get2 (candidate_finding h idx info) ''metadata'' ''hashcat_mode'' PNone =
     Inr (opt_int (hashcat info))"
  by (simp add: candidate_finding_def create_finding_def py_get2_def)

text \<open>
  Claim C9. Whenever the hash-identification module returns a successful result, its
  findings are one Finding per candidate of the library, in the candidates' order, and
  \<open>summary.total_matches\<close> is the length of the findings list. So when the workflow reads
  \<open>total_matches = 1\<close> from such a result, \<^verbatim>\<open>findings[0]\<close> exists: it is the Finding of
  the one candidate.
\<close>

theorem identification_count_matches_findings:
  assumes "mr_status (execute identifyHash vw cfg) = ''success''"
  shows "\<exists>hash_str infos.
           cfg = Some hash_str \<and> identifyHash hash_str = Inr infos \<and>
           mr_findings (execute identifyHash vw cfg) = candidate_findings hash_str 0 infos \<and>
           length (mr_findings (execute identifyHash vw cfg)) = length infos \<and>
           (\<forall>i < length infos.
              mr_findings (execute identifyHash vw cfg) ! i =
                candidate_finding hash_str i (infos ! i)) \<and>
           py_get2 (module_result_dict (execute identifyHash vw cfg))
               ''summary'' ''total_matches'' (PInt 0) =
             Inr (PInt (int (length (mr_findings (execute identifyHash vw cfg))))) \<and>
           py_get (module_result_dict (execute identifyHash vw cfg)) ''findings'' (PList []) =
             Inr (PList (mr_findings (execute identifyHash vw cfg))) \<and>
           (length infos = 1 \<longrightarrow>
              py_index0 (PList (mr_findings (execute identifyHash vw cfg))) =
                Inr (candidate_finding hash_str 0 (infos ! 0)))"
proof -
  from assms obtain hash_str infos where
    cfg: "cfg = Some hash_str" and idh: "identifyHash hash_str = Inr infos" and
    ex: "execute identifyHash vw cfg =
       create_result (candidate_findings hash_str 0 infos) ''success''
         (Some [(''possible_hash_types'', PList (map (\<lambda>h. PStr (name h)) infos)),
                (''total_matches'', PInt (int (length infos)))]) None"
    by (rule execute_success)
  have fs: "mr_findings (execute identifyHash vw cfg) = candidate_findings hash_str 0 infos"
    by (simp add: ex create_result_def)
  have len: "length (mr_findings (execute identifyHash vw cfg)) = length infos"
    by (simp add: fs length_candidate_findings)
  have nth: "\<forall>i < length infos.
      mr_findings (execute identifyHash vw cfg) ! i = candidate_finding hash_str i (infos ! i)"
    by (simp add: fs nth_candidate_findings)
  have tm: "py_get2 (module_result_dict (execute identifyHash vw cfg))
               ''summary'' ''total_matches'' (PInt 0) =
             Inr (PInt (int (length (mr_findings (execute identifyHash vw cfg)))))"
    by (simp add: ex create_result_def module_result_dict_def py_get2_def length_candidate_findings)
  have gf: "py_get (module_result_dict (execute identifyHash vw cfg)) ''findings'' (PList []) =
             Inr (PList (mr_findings (execute identifyHash vw cfg)))"
    by (simp add: module_result_dict_def)
  have first: "length infos = 1 \<longrightarrow>
              py_index0 (PList (mr_findings (execute identifyHash vw cfg))) =
                Inr (candidate_finding hash_str 0 (infos ! 0))"
  proof
    assume "length infos = 1"
    then obtain a where "infos = [a]" by (cases infos) auto
    then show "py_index0 (PList (mr_findings (execute identifyHash vw cfg))) =
                Inr (candidate_finding hash_str 0 (infos ! 0))"
      by (simp add: fs)
  qed
  from cfg idh fs len nth tm gf first show ?thesis by blast
qed

theorem identification_count_matches_findings_witness:
  "mr_status (execute (\<lambda>h. Inr [md5_info]) (Inr ()) (Some md5_hash)) = ''success'' \<and>
   py_get2 (identified [md5_info]) ''summary'' ''total_matches'' (PInt 0) = Inr (PInt 1) \<and>
   py_index0 (PList (mr_findings (execute (\<lambda>h. Inr [md5_info]) (Inr ()) (Some md5_hash)))) =
     Inr (candidate_finding md5_hash 0 md5_info)"
proof -
  have s: "mr_status (execute (\<lambda>h. Inr [md5_info]) (Inr ()) (Some md5_hash)) = ''success''"
    by (simp add: execute_def validate_config_def create_result_def md5_hash_def)
  from identification_count_matches_findings [OF s]
  show ?thesis using s by (auto simp add: identified_def)
qed

section \<open>How each step extends the trace\<close>

lemma trace_execute_activity:
  "trace (snd (execute_activity w c st)) =
     trace st @ [Invocation c (results st) (activity w (calls st) c)]"
  by (simp add: execute_activity_def)

lemma results_execute_activity: "results (snd (execute_activity w c st)) = results st"
  by (simp add: execute_activity_def)

lemma trace_append_step: "trace (append_step s st) = trace st"
  by (simp add: append_step_def)

lemma status_append_step: "status (results (append_step s st)) = status (results st)"
  by (simp add: append_step_def)

lemma calls_append_step: "calls (append_step s st) = calls st"
  by (simp add: calls_def trace_append_step)

lemma trace_cleanup:
  "trace (cleanup w tp st) =
     trace st @ [Invocation (cleanup_call tp ''isolated'') (results st)
                   (activity w (calls st) (cleanup_call tp ''isolated''))]"
  by (simp add: cleanup_def trace_execute_activity)

lemma results_cleanup: "results (cleanup w tp st) = results st"
  by (simp add: cleanup_def results_execute_activity)

lemma trace_report_step:
  "trace (report_step w c st) = trace st @ [Invocation c (results st) (activity w (calls st) c)]"
  by (simp add: report_step_def execute_activity_def split: sum.splits)

lemma status_report_step: "status (results (report_step w c st)) = status (results st)"
  by (simp add: report_step_def execute_activity_def split: sum.splits)

lemma trace_upload_step:
  "trace (upload_step w ar st) =
     trace st @ [Invocation (upload_call w ar) (results st)
                   (activity w (calls st) (upload_call w ar))]"
  by (simp add: upload_step_def execute_activity_def split: sum.splits)

lemma status_upload_step: "status (results (upload_step w ar st)) = status (results st)"
  by (simp add: upload_step_def execute_activity_def split: sum.splits)

lemma trace_mark_success: "trace (snd (mark_success ar st)) = trace st"
  by (simp add: mark_success_def Let_def split: sum.splits)

lemma mark_success_dict:
  "fst (mark_success (PDict kvs) st) = Inr ()"
  "status (results (snd (mark_success (PDict kvs) st))) = ''success''"
  by (simp_all add: mark_success_def Let_def)

lemma trace_handle_failure: "trace (handle_failure e st) = trace st"
  by (simp add: handle_failure_def append_step_def)

lemma status_handle_failure: "status (results (handle_failure e st)) = ''error''"
  by (simp add: handle_failure_def append_step_def)

lemma trace_finish: "trace (snd (finish r)) = trace (snd r)"
  by (cases r) (simp add: finish_def trace_handle_failure split: sum.splits)

lemma entries_append:
  "trace st' = trace st @ new \<Longrightarrow>
     entries n st' = entries n st @ filter (\<lambda>i. activity_name (inv_call i) = n) new"
  by (simp add: entries_def)

lemma entries_finish: "entries n (snd (finish r)) = entries n (snd r)"
  by (simp add: entries_def trace_finish)

section \<open>The cracking step\<close>


lemma trace_crack:
  "\<exists>rest. trace (snd (crack w h tp m st)) =
            trace st @ Invocation (hashcat_call tp h m) (results st)
                         (activity w (calls st) (hashcat_call tp h m)) # rest \<and>
          (\<forall>i \<in> set rest. activity_name (inv_call i) \<in> best_effort_names)"
  by (simp add: crack_def execute_activity_def trace_mark_success trace_cleanup
      trace_upload_step trace_report_step trace_append_step best_effort_names_def call_defs
      split: sum.splits)

lemma filter_none: "(\<forall>i \<in> set xs. \<not> P i) \<Longrightarrow> filter P xs = []"
  by (induction xs) simp_all

lemma entries_crack_hashcat:
  "entries ''run_hashcat'' (snd (crack w h tp m st)) =
     entries ''run_hashcat'' st @
       [Invocation (hashcat_call tp h m) (results st)
          (activity w (calls st) (hashcat_call tp h m))]"
proof -
  from trace_crack [of w h tp m st] obtain rest where
    t: "trace (snd (crack w h tp m st)) =
            trace st @ Invocation (hashcat_call tp h m) (results st)
                         (activity w (calls st) (hashcat_call tp h m)) # rest"
    and r: "\<forall>i \<in> set rest. activity_name (inv_call i) \<in> best_effort_names"
    by blast
  from r have "filter (\<lambda>i. activity_name (inv_call i) = ''run_hashcat'') rest = []"
    by (intro filter_none) (auto simp add: best_effort_names_def)
  with t show ?thesis
    by (simp add: entries_def hashcat_call_def)
qed

lemma entries_crack_hashid:
  "entries ''run_hashid'' (snd (crack w h tp m st)) = entries ''run_hashid'' st"
proof -
  from trace_crack [of w h tp m st] obtain rest where
    t: "trace (snd (crack w h tp m st)) =
            trace st @ Invocation (hashcat_call tp h m) (results st)
                         (activity w (calls st) (hashcat_call tp h m)) # rest"
    and r: "\<forall>i \<in> set rest. activity_name (inv_call i) \<in> best_effort_names"
    by blast
  from r have "filter (\<lambda>i. activity_name (inv_call i) = ''run_hashid'') rest = []"
    by (intro filter_none) (auto simp add: best_effort_names_def)
  with t show ?thesis
    by (simp add: entries_def hashcat_call_def)
qed


section \<open>Unfolding a hash-cracking run along its path\<close>

lemma trace_after_fetch:
  "trace (after_fetch w tid tp) =
     [Invocation (get_target_call w tid ''isolated'') (initial_results w tid)
        (activity w [] (get_target_call w tid ''isolated''))]"
  by (simp add: after_fetch_def get_target_def trace_append_step trace_execute_activity calls_def)

lemma calls_after_fetch: "calls (after_fetch w tid tp) = [get_target_call w tid ''isolated'']"
  by (simp add: calls_def trace_after_fetch)

lemma status_after_fetch: "status (results (after_fetch w tid tp)) = ''running''"
  by (simp add: after_fetch_def get_target_def status_append_step results_execute_activity
      initial_results_def)

lemma run_fetch_raises:
  assumes "activity w [] (get_target_call w tid ''isolated'') = Inl e"
  shows "hash_cracking_run w tid h hint =
           (Raised e,
            handle_failure e
              (snd (get_target w tid ''isolated''
                      \<lparr>results = initial_results w tid, trace = []\<rparr>)))"
  using assms
  by (simp add: hash_cracking_run_def get_target_def execute_activity_def calls_def finish_def)

lemma run_fetch_returns:
  assumes "activity w [] (get_target_call w tid ''isolated'') = Inr tp"
  shows "hash_cracking_run w tid h hint =
           finish (determine_and_crack w h hint tp (after_fetch w tid tp))"
  using assms
  by (simp add: hash_cracking_run_def after_fetch_def get_target_def execute_activity_def
      calls_def)

lemma trace_after_identification:
  "trace (after_identification w tid h tp tm) =
     [Invocation (get_target_call w tid ''isolated'') (initial_results w tid)
        (activity w [] (get_target_call w tid ''isolated'')),
      Invocation (hashid_call tp h) (results (after_fetch w tid tp))
        (activity w [get_target_call w tid ''isolated''] (hashid_call tp h))]"
  by (simp add: after_identification_def trace_append_step trace_execute_activity
      trace_after_fetch calls_after_fetch)

lemma status_after_identification:
  "status (results (after_identification w tid h tp tm)) = ''running''"
  by (simp add: after_identification_def status_append_step results_execute_activity
      status_after_fetch)

lemma identify_returns:
  assumes "activity w [get_target_call w tid ''isolated''] (hashid_call tp h) = Inr r"
  shows "determine_and_crack w h None tp (after_fetch w tid tp) =
           after_hashid w h tp r
             (snd (execute_activity w (hashid_call tp h) (after_fetch w tid tp)))"
  using assms
  by (simp add: determine_and_crack_def execute_activity_def calls_after_fetch)

lemma after_hashid_single:
  assumes "py_get2 r ''summary'' ''total_matches'' (PInt 0) = Inr (PInt 1)"
    and "py_get r ''findings'' (PList []) = Inr (PList (f # fs))"
    and "py_get2 f ''metadata'' ''hashcat_mode'' PNone = Inr mode"
  shows "after_hashid w h tp r st =
           (let st1 = append_step
                        (StepRecord ''hash_identification'' (PStr ''success'')
                           [(''total_matches'', PInt 1)] None) st
            in if mode = PNone then abort_no_mode w f tp st1 else crack w h tp mode st1)"
  using assms by (simp add: after_hashid_def Let_def)

lemma run_single_match:
  assumes "activity w [] (get_target_call w tid ''isolated'') = Inr tp"
    and "activity w [get_target_call w tid ''isolated''] (hashid_call tp h) = Inr r"
    and "py_get2 r ''summary'' ''total_matches'' (PInt 0) = Inr (PInt 1)"
    and "py_get r ''findings'' (PList []) = Inr (PList (f # fs))"
    and "py_get2 f ''metadata'' ''hashcat_mode'' PNone = Inr mode"
    and "mode \<noteq> PNone"
  shows "hash_cracking_run w tid h None =
           finish (crack w h tp mode (after_identification w tid h tp (PInt 1)))"
  using assms
  by (simp add: run_fetch_returns identify_returns after_hashid_single
      after_identification_def Let_def)

text \<open>
  Claim C2. When no hint is given and the identification returns exactly one candidate
  whose metadata carries a hashcat mode other than \<^verbatim>\<open>None\<close> (mode 0 included), the
  cracking activity is invoked exactly once, and the \<^verbatim>\<open>hash_type\<close> of its input is that
  mode.
\<close>

theorem single_match_cracks_with_its_mode:
  assumes "activity w [] (get_target_call w tid ''isolated'') = Inr tp"
    and "activity w [get_target_call w tid ''isolated''] (hashid_call tp h) = Inr r"
    and "py_get2 r ''summary'' ''total_matches'' (PInt 0) = Inr (PInt 1)"
    and "py_get r ''findings'' (PList []) = Inr (PList [f])"
    and "py_get2 f ''metadata'' ''hashcat_mode'' PNone = Inr mode"
    and "mode \<noteq> PNone"
  shows "invoked ''run_hashcat'' (snd (hash_cracking_run w tid h None)) =
           [hashcat_call tp h mode] \<and>
         py_get (activity_args (hashcat_call tp h mode) ! 1) ''hash_type'' PNone = Inr mode \<and>
         py_get (activity_args (hashcat_call tp h mode) ! 1) ''hash'' PNone = Inr (PStr h)"
proof -
  have "hash_cracking_run w tid h None =
           finish (crack w h tp mode (after_identification w tid h tp (PInt 1)))"
    using assms by (rule run_single_match)
  then have "entries ''run_hashcat'' (snd (hash_cracking_run w tid h None)) =
      entries ''run_hashcat'' (after_identification w tid h tp (PInt 1)) @
       [Invocation (hashcat_call tp h mode) (results (after_identification w tid h tp (PInt 1)))
          (activity w (calls (after_identification w tid h tp (PInt 1)))
             (hashcat_call tp h mode))]"
    by (simp add: entries_finish entries_crack_hashcat)
  moreover have "entries ''run_hashcat'' (after_identification w tid h tp (PInt 1)) = []"
    by (simp add: entries_def trace_after_identification call_defs)
  ultimately show ?thesis
    by (simp add: invoked_def hashcat_call_def)
qed

theorem single_match_cracks_with_its_mode_witness:
  "invoked ''run_hashcat'' (snd (hash_cracking_run (world_but []) ''t1'' md5_hash None)) =
     [hashcat_call (PStr ''/cache/t1'') md5_hash (PInt 0)]"
proof -
  have a1: "activity (world_but []) [] (get_target_call (world_but []) ''t1'' ''isolated'') =
              Inr (PStr ''/cache/t1'')"
    by (simp add: world_but_def scripted_def all_return_def get_target_call_def)
  have a2: "activity (world_but []) [get_target_call (world_but []) ''t1'' ''isolated'']
              (hashid_call (PStr ''/cache/t1'') md5_hash) = Inr (identified [md5_info])"
    by (simp add: world_but_def scripted_def all_return_def hashid_call_def)
  have a3: "py_get2 (identified [md5_info]) ''summary'' ''total_matches'' (PInt 0) =
              Inr (PInt 1)"
    by (simp add: identified_def execute_def validate_config_def create_result_def
        module_result_dict_def py_get2_def md5_hash_def)
  have a4: "py_get (identified [md5_info]) ''findings'' (PList []) =
              Inr (PList [candidate_finding md5_hash 0 md5_info])"
    by (simp add: identified_def execute_def validate_config_def create_result_def
        module_result_dict_def md5_hash_def)
  have a5: "py_get2 (candidate_finding md5_hash 0 md5_info) ''metadata'' ''hashcat_mode'' PNone =
              Inr (PInt 0)"
    by (simp add: candidate_mode md5_info_def opt_int_def)
  have a6: "PInt 0 \<noteq> PNone" by simp
  from single_match_cracks_with_its_mode [OF a1 a2 a3 a4 a5 a6] show ?thesis by simp
qed


lemma trace_fetch_raises:
  assumes "activity w [] (get_target_call w tid ''isolated'') = Inl e"
  shows "trace (snd (hash_cracking_run w tid h hint)) =
           [Invocation (get_target_call w tid ''isolated'') (initial_results w tid) (Inl e)]"
  using assms
  by (simp add: run_fetch_raises trace_handle_failure get_target_def trace_execute_activity
      calls_def)

lemma run_with_hint:
  assumes "activity w [] (get_target_call w tid ''isolated'') = Inr tp"
  shows "hash_cracking_run w tid h (Some mode) =
           finish (crack w h tp (PInt mode) (after_fetch w tid tp))"
  using assms by (simp add: run_fetch_returns determine_and_crack_def)

text \<open>
  Claim C5. Whatever the hash string, when a hint is given (0 included) the identification
  activity is never invoked; once the fetch has returned, the next invocation is the
  cracking activity with the hint as its \<^verbatim>\<open>hash_type\<close>, and it is the only invocation of
  the cracking activity.
\<close>

theorem hint_skips_identification:
  "invoked ''run_hashid'' (snd (hash_cracking_run w tid h (Some mode))) = [] \<and>
   (\<forall>tp. activity w [] (get_target_call w tid ''isolated'') = Inr tp \<longrightarrow>
      take 2 (calls (snd (hash_cracking_run w tid h (Some mode)))) =
        [get_target_call w tid ''isolated'', hashcat_call tp h (PInt mode)] \<and>
      invoked ''run_hashcat'' (snd (hash_cracking_run w tid h (Some mode))) =
        [hashcat_call tp h (PInt mode)] \<and>
      py_get (activity_args (hashcat_call tp h (PInt mode)) ! 1) ''hash_type'' PNone =
        Inr (PInt mode))"
proof (cases "activity w [] (get_target_call w tid ''isolated'')")
  case (Inl e)
  then show ?thesis
    by (simp add: invoked_def entries_def trace_fetch_raises call_defs)
next
  case (Inr tp)
  let ?st = "after_fetch w tid tp"
  have run: "hash_cracking_run w tid h (Some mode) = finish (crack w h tp (PInt mode) ?st)"
    using Inr by (rule run_with_hint)
  from trace_crack [of w h tp "PInt mode" ?st] obtain rest where
    t: "trace (snd (crack w h tp (PInt mode) ?st)) =
          trace ?st @ Invocation (hashcat_call tp h (PInt mode)) (results ?st)
                        (activity w (calls ?st) (hashcat_call tp h (PInt mode))) # rest"
    by blast
  have no_hashid: "invoked ''run_hashid'' (snd (hash_cracking_run w tid h (Some mode))) = []"
    by (simp add: run invoked_def entries_finish entries_crack_hashid)
       (simp add: entries_def trace_after_fetch call_defs)
  have first_two: "take 2 (calls (snd (hash_cracking_run w tid h (Some mode)))) =
        [get_target_call w tid ''isolated'', hashcat_call tp h (PInt mode)]"
    by (simp add: run calls_def trace_finish t trace_after_fetch)
  have once: "invoked ''run_hashcat'' (snd (hash_cracking_run w tid h (Some mode))) =
        [hashcat_call tp h (PInt mode)]"
    by (simp add: run invoked_def entries_finish entries_crack_hashcat)
       (simp add: entries_def trace_after_fetch call_defs)
  have arg: "py_get (activity_args (hashcat_call tp h (PInt mode)) ! 1) ''hash_type'' PNone =
        Inr (PInt mode)"
    by (simp add: hashcat_call_def)
  from no_hashid first_two once arg Inr show ?thesis by simp
qed

theorem hint_skips_identification_witness:
  "activity (world_but []) [] (get_target_call (world_but []) ''t1'' ''isolated'') =
     Inr (PStr ''/cache/t1'') \<and>
   invoked ''run_hashid'' (snd (hash_cracking_run (world_but []) ''t1'' md5_hash (Some 0))) = [] \<and>
   invoked ''run_hashcat'' (snd (hash_cracking_run (world_but []) ''t1'' md5_hash (Some 0))) =
     [hashcat_call (PStr ''/cache/t1'') md5_hash (PInt 0)]"
proof -
  have a1: "activity (world_but []) [] (get_target_call (world_but []) ''t1'' ''isolated'') =
              Inr (PStr ''/cache/t1'')"
    by (simp add: world_but_def scripted_def all_return_def get_target_call_def)
  from hint_skips_identification [of "world_but []" "''t1''" md5_hash 0] a1
  show ?thesis by blast
qed

section \<open>The cleanup on every path\<close>

lemma entries_results_update: "entries n (st\<lparr>results := r\<rparr>) = entries n st"
  by (simp add: entries_def)

lemma entries_append_step: "entries n (append_step s st) = entries n st"
  by (simp add: entries_def trace_append_step)

lemma entries_execute_activity:
  "entries n (snd (execute_activity w c st)) =
     entries n st @
       (if activity_name c = n then [Invocation c (results st) (activity w (calls st) c)]
        else [])"
  by (simp add: entries_def trace_execute_activity)

lemma entries_cleanup:
  "entries ''cleanup_cache'' (cleanup w tp st) =
     entries ''cleanup_cache'' st @
       [Invocation (cleanup_call tp ''isolated'') (results st)
          (activity w (calls st) (cleanup_call tp ''isolated''))]"
  by (simp add: entries_def trace_cleanup cleanup_call_def)

lemma entries_report_step:
  "activity_name c \<noteq> n \<Longrightarrow> entries n (report_step w c st) = entries n st"
  by (simp add: entries_def trace_report_step)

lemma entries_upload_step:
  "n \<noteq> ''upload_results'' \<Longrightarrow> entries n (upload_step w ar st) = entries n st"
  by (auto simp add: entries_def trace_upload_step upload_call_def)

lemma entries_mark_success: "entries n (snd (mark_success ar st)) = entries n st"
  by (simp add: entries_def trace_mark_success)

lemma cleans_once_append_step: "cleans_once (append_step s st) r = cleans_once st r"
  by (simp add: cleans_once_def entries_append_step status_append_step)

lemma cleans_once_execute_activity:
  "activity_name c \<noteq> ''cleanup_cache'' \<Longrightarrow>
     cleans_once (snd (execute_activity w c st)) r = cleans_once st r"
  by (simp add: cleans_once_def entries_execute_activity results_execute_activity)

lemma cleans_once_raise: "cleans_once st (Inl e, st)"
  by (simp add: cleans_once_def)

lemma cleans_once_tail:
  assumes "entries ''cleanup_cache'' st' = entries ''cleanup_cache'' st"
    and "status (results st') = status (results st)"
    and "activity_name c \<noteq> ''cleanup_cache''"
  shows "cleans_once st
     (mark_success (PDict kvs) (cleanup w tp (upload_step w ar (report_step w c st'))))"
  using assms
  by (simp add: cleans_once_def mark_success_dict entries_mark_success entries_cleanup
      entries_upload_step entries_report_step results_cleanup status_upload_step
      status_report_step)

lemma execute_activity_eq:
  "execute_activity w c st = (activity w (calls st) c, snd (execute_activity w c st))"
  by (simp add: execute_activity_def)

lemma crack_raises:
  assumes "activity w (calls st) (hashcat_call tp h m) = Inl e"
  shows "crack w h tp m st = (Inl e, snd (execute_activity w (hashcat_call tp h m) st))"
  unfolding crack_def
  by (subst execute_activity_eq) (simp add: assms)

lemma crack_returns:
  assumes "activity w (calls st) (hashcat_call tp h m) = Inr hr"
  shows "crack w h tp m st =
    (case py_get hr ''status'' (PStr ''unknown'') of
       Inl e \<Rightarrow> (Inl e, snd (execute_activity w (hashcat_call tp h m) st))
     | Inr hstatus \<Rightarrow>
         (case py_get2 hr ''summary'' ''plaintext'' (PStr []) of
            Inl e \<Rightarrow> (Inl e, snd (execute_activity w (hashcat_call tp h m) st))
          | Inr plaintext \<Rightarrow>
              mark_success hr
                (cleanup w tp
                  (upload_step w hr
                    (report_step w (sarif_call hr tp)
                      (append_step
                         (StepRecord ''hash_cracking'' hstatus
                            [(''plaintext'', plaintext)] None)
                         (snd (execute_activity w (hashcat_call tp h m) st))))))))"
  unfolding crack_def
  by (subst execute_activity_eq) (simp add: assms)

lemma cleans_once_after_activity:
  assumes "activity_name c \<noteq> ''cleanup_cache''"
  shows "cleans_once st (Inl e, snd (execute_activity w c st))"
  using assms by (simp add: cleans_once_def entries_execute_activity)

lemma cleans_once_crack: "cleans_once st (crack w h tp m st)"
proof (cases "activity w (calls st) (hashcat_call tp h m)")
  case (Inl e)
  then show ?thesis
    by (simp add: crack_raises cleans_once_after_activity hashcat_call_def)
next
  case (Inr hr)
  let ?st1 = "snd (execute_activity w (hashcat_call tp h m) st)"
  have keep: "entries ''cleanup_cache'' ?st1 = entries ''cleanup_cache'' st"
    "status (results ?st1) = status (results st)"
    by (simp_all add: entries_execute_activity results_execute_activity hashcat_call_def)
  have raise: "cleans_once st (Inl e, ?st1)" for e
    by (rule cleans_once_after_activity) (simp add: hashcat_call_def)
  show ?thesis
  proof (cases "py_get hr ''status'' (PStr ''unknown'')")
    case (Inl e)
    with Inr raise show ?thesis by (simp add: crack_returns)
  next
    case hs: (Inr hstatus)
    then obtain kvs where hr: "hr = PDict kvs" by (auto dest: py_get_dict)
    show ?thesis
    proof (cases "py_get2 hr ''summary'' ''plaintext'' (PStr [])")
      case (Inl e)
      with Inr hs raise show ?thesis by (simp add: crack_returns)
    next
      case pt: (Inr plaintext)
      have "cleans_once st
         (mark_success (PDict kvs)
           (cleanup w tp
             (upload_step w (PDict kvs)
               (report_step w (sarif_call (PDict kvs) tp)
                 (append_step
                    (StepRecord ''hash_cracking'' hstatus [(''plaintext'', plaintext)] None)
                    ?st1)))))"
        by (rule cleans_once_tail)
           (simp_all add: keep entries_append_step status_append_step sarif_call_def)
      with Inr hs pt hr show ?thesis by (simp add: crack_returns)
    qed
  qed
qed

lemma abort_no_match_cases:
  "abort_no_match w h tp st =
     (case activity w (calls st) (sarif_call (PDict [(''findings'', no_match_findings h)]) tp) of
        Inl e \<Rightarrow>
          (Inl e,
           snd (execute_activity w
                  (sarif_call (PDict [(''findings'', no_match_findings h)]) tp) st))
      | Inr report \<Rightarrow>
          (Inr (),
           cleanup w tp
             ((snd (execute_activity w
                      (sarif_call (PDict [(''findings'', no_match_findings h)]) tp) st))
                \<lparr>results := (results st)
                   \<lparr>sarif := Some report,
                    status := ''aborted'',
                    error := Some (Literal ''No matching hash type found''),
                    findings := Some (no_match_findings h)\<rparr>\<rparr>)))"
  unfolding abort_no_match_def generate_sarif_report_def
  by (subst execute_activity_eq) (simp add: results_execute_activity split: sum.splits)

lemma cleans_once_abort_no_match: "cleans_once st (abort_no_match w h tp st)"
  by (simp add: abort_no_match_cases cleans_once_def entries_cleanup results_cleanup
      entries_results_update entries_execute_activity sarif_call_def split: sum.splits)

lemma abort_no_mode_cases:
  "abort_no_mode w f tp st =
     (case no_mode_findings w f of
        Inl e \<Rightarrow> (Inl e, st)
      | Inr nmf \<Rightarrow>
          (case activity w (calls st) (sarif_call (PDict [(''findings'', nmf)]) tp) of
             Inl e \<Rightarrow>
               (Inl e,
                snd (execute_activity w (sarif_call (PDict [(''findings'', nmf)]) tp) st))
           | Inr report \<Rightarrow>
               (Inr (),
                cleanup w tp
                  ((snd (execute_activity w (sarif_call (PDict [(''findings'', nmf)]) tp) st))
                     \<lparr>results := (results st)
                        \<lparr>sarif := Some report,
                         status := ''aborted'',
                         error := Some (Literal
                                   ''No hashcat mode available for identified hash type''),
                         findings := Some nmf\<rparr>\<rparr>))))"
  unfolding abort_no_mode_def generate_sarif_report_def
  by (subst execute_activity_eq) (simp add: results_execute_activity split: sum.splits)

lemma cleans_once_abort_no_mode: "cleans_once st (abort_no_mode w f tp st)"
  by (simp add: abort_no_mode_cases cleans_once_def entries_cleanup results_cleanup
      entries_results_update entries_execute_activity sarif_call_def split: sum.splits)

lemma needs_selection_cases:
  "needs_selection w (PDict kvs) fs tp st =
     (case activity w (calls st) (sarif_call (PDict kvs) tp) of
        Inl e \<Rightarrow> (Inl e, snd (execute_activity w (sarif_call (PDict kvs) tp) st))
      | Inr report \<Rightarrow>
          (Inr (),
           cleanup w tp
             ((snd (execute_activity w (sarif_call (PDict kvs) tp) st))
                \<lparr>results := (results st)
                   \<lparr>sarif := Some report,
                    status := ''needs_selection'',
                    message := Some ''Multiple hash types identified. Please re-run with a specific hash_type parameter.'',
                    findings := Some fs,
                    summary := Some (case map_of kvs ''summary'' of
                                       None \<Rightarrow> PDict [] | Some v \<Rightarrow> v)\<rparr>\<rparr>)))"
  unfolding needs_selection_def generate_sarif_report_def
  by (subst execute_activity_eq) (simp add: results_execute_activity split: sum.splits)

lemma cleans_once_needs_selection:
  "cleans_once st (needs_selection w (PDict kvs) fs tp st)"
  by (simp add: needs_selection_cases cleans_once_def entries_cleanup results_cleanup
      entries_results_update entries_execute_activity sarif_call_def split: sum.splits)

lemma cleans_once_from_step:
  "cleans_once (append_step s st) r \<Longrightarrow> cleans_once st r"
  by (simp add: cleans_once_append_step)

lemma cleans_once_after_hashid: "cleans_once st (after_hashid w h tp r st)"
proof (cases "py_get2 r ''summary'' ''total_matches'' (PInt 0)")
  case (Inl e)
  then show ?thesis by (simp add: after_hashid_def cleans_once_raise)
next
  case tm: (Inr total_matches)
  let ?st1 = "append_step (StepRecord ''hash_identification'' (PStr ''success'')
                             [(''total_matches'', total_matches)] None) st"
  have raise: "cleans_once st (Inl e, ?st1)" for e
    by (rule cleans_once_from_step) (rule cleans_once_raise)
  show ?thesis
  proof (cases "py_get r ''findings'' (PList [])")
    case (Inl e)
    with tm raise show ?thesis by (simp add: after_hashid_def Let_def)
  next
    case fs: (Inr fs)
    then obtain kvs where r: "r = PDict kvs" by (auto dest: py_get_dict)
    show ?thesis
    proof (cases "py_eq_zero total_matches")
      case True
      have "cleans_once st (abort_no_match w h tp ?st1)"
        by (rule cleans_once_from_step) (rule cleans_once_abort_no_match)
      with tm fs True show ?thesis by (simp add: after_hashid_def Let_def)
    next
      case False
      show ?thesis
      proof (cases "py_gt_one total_matches")
        case (Inl e)
        with tm fs False raise show ?thesis by (simp add: after_hashid_def Let_def)
      next
        case gt: (Inr many)
        show ?thesis
        proof (cases many)
          case True
          have "cleans_once st (needs_selection w (PDict kvs) fs tp ?st1)"
            by (rule cleans_once_from_step) (rule cleans_once_needs_selection)
          with tm fs False gt True r show ?thesis by (simp add: after_hashid_def Let_def)
        next
          case one: False
          show ?thesis
          proof (cases "py_index0 fs")
            case (Inl e)
            with tm fs False gt one raise show ?thesis by (simp add: after_hashid_def Let_def)
          next
            case f0: (Inr finding0)
            show ?thesis
            proof (cases "py_get2 finding0 ''metadata'' ''hashcat_mode'' PNone")
              case (Inl e)
              with tm fs False gt one f0 raise show ?thesis
                by (simp add: after_hashid_def Let_def)
            next
              case (Inr hashcat_mode)
              have "cleans_once st (abort_no_mode w finding0 tp ?st1)"
                by (rule cleans_once_from_step) (rule cleans_once_abort_no_mode)
              moreover have "cleans_once st (crack w h tp hashcat_mode ?st1)"
                by (rule cleans_once_from_step) (rule cleans_once_crack)
              ultimately show ?thesis
                using tm fs False gt one f0 Inr by (simp add: after_hashid_def Let_def)
            qed
          qed
        qed
      qed
    qed
  qed
qed

lemma determine_and_crack_identify:
  "determine_and_crack w h None tp st =
     (case activity w (calls st) (hashid_call tp h) of
        Inl e \<Rightarrow> (Inl e, snd (execute_activity w (hashid_call tp h) st))
      | Inr r \<Rightarrow> after_hashid w h tp r (snd (execute_activity w (hashid_call tp h) st)))"
  unfolding determine_and_crack_def
  by (subst execute_activity_eq) (simp split: sum.splits)

lemma cleans_once_determine_and_crack:
  "cleans_once st (determine_and_crack w h hint tp st)"
proof (cases hint)
  case (Some mode)
  then show ?thesis by (simp add: determine_and_crack_def cleans_once_crack)
next
  case None
  show ?thesis
  proof (cases "activity w (calls st) (hashid_call tp h)")
    case (Inl e)
    with None show ?thesis
      by (simp add: determine_and_crack_identify cleans_once_after_activity hashid_call_def)
  next
    case (Inr r)
    have "cleans_once (snd (execute_activity w (hashid_call tp h) st))
            (after_hashid w h tp r (snd (execute_activity w (hashid_call tp h) st)))"
      by (rule cleans_once_after_hashid)
    then have "cleans_once st
            (after_hashid w h tp r (snd (execute_activity w (hashid_call tp h) st)))"
      by (simp add: cleans_once_execute_activity hashid_call_def)
    with None Inr show ?thesis by (simp add: determine_and_crack_identify)
  qed
qed

lemma binary_analysis_body_cases:
  "binary_analysis_body w tf tp st =
     (case activity w (calls st) (capa_call tp tf) of
        Inl e \<Rightarrow> (Inl e, snd (execute_activity w (capa_call tp tf) st))
      | Inr fuzz_results \<Rightarrow>
          (case py_get2 fuzz_results ''summary'' ''capabilities_found'' (PInt 0) of
             Inl e \<Rightarrow> (Inl e, snd (execute_activity w (capa_call tp tf) st))
           | Inr capabilities_found \<Rightarrow>
               (case py_get2 fuzz_results ''summary'' ''execution_time'' (PInt 0) of
                  Inl e \<Rightarrow> (Inl e, snd (execute_activity w (capa_call tp tf) st))
                | Inr execution_time \<Rightarrow>
                    mark_success fuzz_results
                      (cleanup w tp
                        (upload_step w fuzz_results
                          (report_step w (binary_report_call fuzz_results tp)
                            (append_step
                               (StepRecord ''fuzzing'' (PStr ''success'')
                                  [(''capabilities_found'', capabilities_found),
                                   (''execution_time'', execution_time)] None)
                               (snd (execute_activity w (capa_call tp tf) st)))))))))"
  unfolding binary_analysis_body_def
  by (subst execute_activity_eq) (simp split: sum.splits)

lemma py_get2_dict: "py_get2 x k1 k2 d = Inr v \<Longrightarrow> \<exists>kvs. x = PDict kvs"
  by (cases x) (simp_all add: py_get2_def)

lemma cleans_once_binary_analysis_body: "cleans_once st (binary_analysis_body w tf tp st)"
proof (cases "activity w (calls st) (capa_call tp tf)")
  case (Inl e)
  then show ?thesis
    by (simp add: binary_analysis_body_cases cleans_once_after_activity capa_call_def)
next
  case (Inr fr)
  let ?st1 = "snd (execute_activity w (capa_call tp tf) st)"
  have keep: "entries ''cleanup_cache'' ?st1 = entries ''cleanup_cache'' st"
    "status (results ?st1) = status (results st)"
    by (simp_all add: entries_execute_activity results_execute_activity capa_call_def)
  have raise: "cleans_once st (Inl e, ?st1)" for e
    by (rule cleans_once_after_activity) (simp add: capa_call_def)
  show ?thesis
  proof (cases "py_get2 fr ''summary'' ''capabilities_found'' (PInt 0)")
    case (Inl e)
    with Inr raise show ?thesis by (simp add: binary_analysis_body_cases)
  next
    case cf: (Inr capabilities_found)
    then obtain kvs where fr: "fr = PDict kvs" by (auto dest: py_get2_dict)
    show ?thesis
    proof (cases "py_get2 fr ''summary'' ''execution_time'' (PInt 0)")
      case (Inl e)
      with Inr cf raise show ?thesis by (simp add: binary_analysis_body_cases)
    next
      case et: (Inr execution_time)
      have "cleans_once st
         (mark_success (PDict kvs)
           (cleanup w tp
             (upload_step w (PDict kvs)
               (report_step w (binary_report_call (PDict kvs) tp)
                 (append_step
                    (StepRecord ''fuzzing'' (PStr ''success'')
                       [(''capabilities_found'', capabilities_found),
                        (''execution_time'', execution_time)] None)
                    ?st1)))))"
        by (rule cleans_once_tail)
           (simp_all add: keep entries_append_step status_append_step binary_report_call_def)
      with Inr cf et fr show ?thesis by (simp add: binary_analysis_body_cases)
    qed
  qed
qed

lemma case_execute_activity:
  "(case execute_activity w c st of (Inl e, st') \<Rightarrow> f e st' | (Inr v, st') \<Rightarrow> g v st') =
     (case activity w (calls st) c of
        Inl e \<Rightarrow> f e (snd (execute_activity w c st))
      | Inr v \<Rightarrow> g v (snd (execute_activity w c st)))"
  by (simp add: execute_activity_def split: sum.splits)

lemma llm_body_scan_raises:
  assumes "activity w (calls st) (llm_scan_call p tp) = Inl e"
  shows "llm_body w p tp st = (Inl e, snd (execute_activity w (llm_scan_call p tp) st))"
  using assms by (simp add: llm_body_def case_execute_activity)

lemma llm_body_scan_returns:
  assumes "activity w (calls st) (llm_scan_call p tp) = Inr scan_results"
  shows "llm_body w p tp st =
     (let st1 = snd (execute_activity w (llm_scan_call p tp) st) in
      case py_get scan_results ''findings'' (PList []) of
        Inl e \<Rightarrow> (Inl e, st1)
      | Inr fs \<Rightarrow>
          (case py_len fs of
             Inl e \<Rightarrow> (Inl e, st1)
           | Inr findings_count \<Rightarrow>
               (let st2 = append_step
                            (StepRecord ''llm_scan'' (PStr ''success'')
                               [(''secrets_found'', PInt (int findings_count))] None) st1;
                    st3 = snd (execute_activity w (llm_report_call p fs) st2)
                in case activity w (calls st2) (llm_report_call p fs) of
                     Inl e \<Rightarrow> (Inl e, st3)
                   | Inr sarif_report \<Rightarrow>
                       llm_mark_success scan_results sarif_report
                         (snd (execute_activity w (cleanup_call tp ''shared'')
                                 (upload_step w scan_results st3))))))"
  using assms by (simp add: llm_body_def case_execute_activity Let_def split: sum.splits)

lemma llm_mark_success_dict:
  "fst (llm_mark_success (PDict kvs) rep st) = Inr ()"
  "status (results (snd (llm_mark_success (PDict kvs) rep st))) = ''success''"
  "trace (snd (llm_mark_success (PDict kvs) rep st)) = trace st"
  by (simp_all add: llm_mark_success_def mark_success_def Let_def)

lemma cleans_once_llm_body: "cleans_once st (llm_body w p tp st)"
proof (cases "activity w (calls st) (llm_scan_call p tp)")
  case (Inl e)
  then show ?thesis
    by (simp add: llm_body_scan_raises cleans_once_after_activity llm_scan_call_def)
next
  case (Inr sr)
  let ?st1 = "snd (execute_activity w (llm_scan_call p tp) st)"
  have keep: "entries ''cleanup_cache'' ?st1 = entries ''cleanup_cache'' st"
    "status (results ?st1) = status (results st)"
    by (simp_all add: entries_execute_activity results_execute_activity llm_scan_call_def)
  have raise: "cleans_once st (Inl e, ?st1)" for e
    by (rule cleans_once_after_activity) (simp add: llm_scan_call_def)
  note body = llm_body_scan_returns [OF Inr]
  show ?thesis
  proof (cases "py_get sr ''findings'' (PList [])")
    case (Inl e)
    with raise show ?thesis by (simp add: body)
  next
    case fs: (Inr fs)
    then obtain kvs where sr: "sr = PDict kvs" by (auto dest: py_get_dict)
    show ?thesis
    proof (cases "py_len fs")
      case (Inl e)
      with fs raise show ?thesis by (simp add: body)
    next
      case n: (Inr findings_count)
      let ?st2 = "append_step
                    (StepRecord ''llm_scan'' (PStr ''success'')
                       [(''secrets_found'', PInt (int findings_count))] None) ?st1"
      let ?st3 = "snd (execute_activity w (llm_report_call p fs) ?st2)"
      have keep3: "entries ''cleanup_cache'' ?st3 = entries ''cleanup_cache'' st"
        "status (results ?st3) = status (results st)"
        by (simp_all add: entries_execute_activity results_execute_activity
            entries_append_step status_append_step llm_report_call_def llm_scan_call_def)
      show ?thesis
      proof (cases "activity w (calls ?st2) (llm_report_call p fs)")
        case (Inl e)
        have "cleans_once st (Inl e, ?st3)"
          by (simp add: cleans_once_def keep3)
        with fs n Inl show ?thesis by (simp add: body Let_def)
      next
        case rep: (Inr sarif_report)
        have "entries ''cleanup_cache''
                (snd (execute_activity w (cleanup_call tp ''shared'')
                        (upload_step w (PDict kvs) ?st3))) =
              entries ''cleanup_cache'' st @
                [Invocation (cleanup_call tp ''shared'') (results (upload_step w (PDict kvs) ?st3))
                   (activity w (calls (upload_step w (PDict kvs) ?st3))
                      (cleanup_call tp ''shared''))]"
          by (simp add: entries_execute_activity entries_upload_step entries_append_step
              cleanup_call_def llm_report_call_def llm_scan_call_def)
        then have "cleans_once st
                (llm_mark_success (PDict kvs) sarif_report
                   (snd (execute_activity w (cleanup_call tp ''shared'')
                           (upload_step w (PDict kvs) ?st3))))"
          by (simp add: cleans_once_def llm_mark_success_dict entries_def
              status_upload_step keep3)
        with fs n rep sr show ?thesis by (simp add: body Let_def)
      qed
    qed
  qed
qed

section \<open>Whole runs\<close>

lemma hash_cracking_run_cases:
  "hash_cracking_run w tid h hint =
     (case activity w [] (get_target_call w tid ''isolated'') of
        Inl e \<Rightarrow>
          (Raised e,
           handle_failure e
             (snd (get_target w tid ''isolated''
                     \<lparr>results = initial_results w tid, trace = []\<rparr>)))
      | Inr tp \<Rightarrow> finish (determine_and_crack w h hint tp (after_fetch w tid tp)))"
  by (simp add: hash_cracking_run_def after_fetch_def get_target_def case_execute_activity
      calls_def finish_def split: sum.splits)

lemma binary_analysis_run_cases:
  "binary_analysis_run w tid tf =
     (case activity w [] (get_target_call w tid ''isolated'') of
        Inl e \<Rightarrow>
          (Raised e,
           handle_failure e
             (snd (get_target w tid ''isolated''
                     \<lparr>results = initial_results w tid, trace = []\<rparr>)))
      | Inr tp \<Rightarrow> finish (binary_analysis_body w tf tp (after_fetch w tid tp)))"
  by (simp add: binary_analysis_run_def after_fetch_def get_target_def case_execute_activity
      calls_def finish_def split: sum.splits)

lemma llm_secret_detection_run_cases:
  "llm_secret_detection_run w tid p =
     (case activity w [] (get_target_call w tid ''shared'') of
        Inl e \<Rightarrow>
          (Raised e,
           handle_failure e
             (snd (get_target w tid ''shared''
                     \<lparr>results = (initial_results w tid)\<lparr>findings := Some (PList [])\<rparr>,
                      trace = []\<rparr>)))
      | Inr tp \<Rightarrow> finish (llm_body w p tp (llm_after_fetch w tid tp)))"
  by (simp add: llm_secret_detection_run_def llm_after_fetch_def get_target_def
      case_execute_activity calls_def finish_def split: sum.splits)

lemma entries_fetch_only:
  "entries ''cleanup_cache'' (snd (get_target w tid isolation st)) = entries ''cleanup_cache'' st"
  by (simp add: get_target_def entries_execute_activity get_target_call_def)

lemma entries_handle_failure: "entries n (handle_failure e st) = entries n st"
  by (simp add: entries_def trace_handle_failure)

lemma cleanup_rule_fetch_raised:
  assumes "activity w [] fetch = Inl e"
  shows "cleanup_rule w fetch
           (Raised e, handle_failure e (snd (get_target w tid isolation \<lparr>results = r0, trace = []\<rparr>)))"
  using assms
  by (simp add: cleanup_rule_def entries_handle_failure entries_fetch_only
      status_handle_failure) (simp add: entries_def)

lemma cleanup_rule_finish:
  assumes "cleans_once st r"
    and "entries ''cleanup_cache'' st = []"
    and "status (results st) = ''running''"
    and "activity w [] fetch = Inr tp"
  shows "cleanup_rule w fetch (finish r)"
proof (cases r)
  case (Pair res st')
  show ?thesis
  proof (cases res)
    case (Inl e)
    with Pair assms show ?thesis
      by (simp add: cleanup_rule_def finish_def cleans_once_def entries_handle_failure)
  next
    case (Inr u)
    with Pair assms show ?thesis
      by (auto simp add: cleanup_rule_def finish_def cleans_once_def)
  qed
qed

lemma after_fetch_clean:
  "entries ''cleanup_cache'' (after_fetch w tid tp) = []"
  "status (results (after_fetch w tid tp)) = ''running''"
  by (simp_all add: entries_def trace_after_fetch get_target_call_def status_after_fetch)

lemma llm_after_fetch_clean:
  "entries ''cleanup_cache'' (llm_after_fetch w tid tp) = []"
  "status (results (llm_after_fetch w tid tp)) = ''running''"
  by (simp_all add: llm_after_fetch_def entries_append_step status_append_step
      get_target_def results_execute_activity initial_results_def
      get_target_call_def entries_def trace_append_step trace_execute_activity)

lemma hash_cracking_cleanup:
  "cleanup_rule w (get_target_call w tid ''isolated'') (hash_cracking_run w tid h hint)"
proof (cases "activity w [] (get_target_call w tid ''isolated'')")
  case (Inl e)
  then show ?thesis by (simp add: hash_cracking_run_cases cleanup_rule_fetch_raised)
next
  case (Inr tp)
  have "cleanup_rule w (get_target_call w tid ''isolated'')
          (finish (determine_and_crack w h hint tp (after_fetch w tid tp)))"
    using cleans_once_determine_and_crack after_fetch_clean Inr by (rule cleanup_rule_finish)
  with Inr show ?thesis by (simp add: hash_cracking_run_cases)
qed

lemma binary_analysis_cleanup:
  "cleanup_rule w (get_target_call w tid ''isolated'') (binary_analysis_run w tid tf)"
proof (cases "activity w [] (get_target_call w tid ''isolated'')")
  case (Inl e)
  then show ?thesis by (simp add: binary_analysis_run_cases cleanup_rule_fetch_raised)
next
  case (Inr tp)
  have "cleanup_rule w (get_target_call w tid ''isolated'')
          (finish (binary_analysis_body w tf tp (after_fetch w tid tp)))"
    using cleans_once_binary_analysis_body after_fetch_clean Inr by (rule cleanup_rule_finish)
  with Inr show ?thesis by (simp add: binary_analysis_run_cases)
qed

lemma llm_secret_detection_cleanup:
  "cleanup_rule w (get_target_call w tid ''shared'') (llm_secret_detection_run w tid p)"
proof (cases "activity w [] (get_target_call w tid ''shared'')")
  case (Inl e)
  then show ?thesis by (simp add: llm_secret_detection_run_cases cleanup_rule_fetch_raised)
next
  case (Inr tp)
  have "cleanup_rule w (get_target_call w tid ''shared'')
          (finish (llm_body w p tp (llm_after_fetch w tid tp)))"
    using cleans_once_llm_body llm_after_fetch_clean Inr by (rule cleanup_rule_finish)
  with Inr show ?thesis by (simp add: llm_secret_detection_run_cases)
qed

text \<open>
  Claim C6, as stated, fails: when the fetch raises, the run ends with status \<^verbatim>\<open>error\<close>
  and the cleanup activity has not been invoked at all.
\<close>

theorem no_cleanup_when_fetch_fails:
  "fst (hash_cracking_run (world_but [fetch_fails]) ''t1'' md5_hash None) =
     Raised (ActivityError ''download failed'') \<and>
   status (results (snd (hash_cracking_run (world_but [fetch_fails]) ''t1'' md5_hash None))) =
     ''error'' \<and>
   invoked ''cleanup_cache''
     (snd (hash_cracking_run (world_but [fetch_fails]) ''t1'' md5_hash None)) = []"
proof -
  have f: "activity (world_but [fetch_fails]) []
             (get_target_call (world_but [fetch_fails]) ''t1'' ''isolated'') =
           Inl (ActivityError ''download failed'')"
    by (simp add: world_but_def scripted_def fetch_fails_def get_target_call_def)
  show ?thesis
    unfolding hash_cracking_run_cases f
    by (simp add: status_handle_failure invoked_def get_target_def get_target_call_def
        entries_def trace_handle_failure trace_execute_activity)
qed

text \<open>
  Claim C6, amended. In every run of the hash-cracking, the binary-analysis and the LLM
  secret-detection workflow the cleanup activity is attempted at most once. It is attempted
  exactly once in every run that returns its record, and such a run has status \<^verbatim>\<open>success\<close>,
  \<^verbatim>\<open>aborted\<close> or \<^verbatim>\<open>needs_selection\<close>: with \<^verbatim>\<open>aborted\<close> and \<^verbatim>\<open>needs_selection\<close> the status is
  set before the cleanup is attempted, with \<^verbatim>\<open>success\<close> it is set after it, the cleanup
  seeing \<^verbatim>\<open>running\<close>. When the fetch raises, the run ends by that exception with status
  \<^verbatim>\<open>error\<close> and the cleanup is not attempted.
\<close>

theorem cleanup_once_on_returning_runs:
  "cleanup_rule w (get_target_call w tid ''isolated'') (hash_cracking_run w tid h hint) \<and>
   cleanup_rule w (get_target_call w tid ''isolated'') (binary_analysis_run w tid tf) \<and>
   cleanup_rule w (get_target_call w tid ''shared'') (llm_secret_detection_run w tid p)"
  by (simp add: hash_cracking_cleanup binary_analysis_cleanup llm_secret_detection_cleanup)

lemmas world_defs = world_but_def scripted_def all_return_def fetch_fails_def report_fails_def
  crack_fails_def crack_returns_failed_def llm_report_fails_def binary_report_fails_def
  upload_fails_def identifies_def identification_fails_inside_def
  identified_def identification_failed_def cracked_result_def failed_crack_result_def
  scan_result_def sample_report_def md5_hash_def md5_info_def md4_info_def md2_info_def
  no_params_def

lemmas module_defs = execute_def validate_config_def create_result_def module_result_dict_def
  candidate_finding_def create_finding_def opt_int_def opt_str_def quote_def

lemmas run_defs = hash_cracking_run_def determine_and_crack_def after_hashid_def crack_def
  abort_no_match_def abort_no_mode_def needs_selection_def mark_success_def finish_def
  handle_failure_def initial_results_def execute_activity_def calls_def append_step_def
  get_target_def generate_sarif_report_def cleanup_def report_step_def upload_step_def
  no_match_findings_def no_mode_findings_def py_get2_def binary_analysis_run_def
  binary_analysis_body_def llm_secret_detection_run_def llm_body_def llm_mark_success_def
  llm_config_def llm_tool_name_def str_entry_def int_entry_def list_entry_def

theorem cleanup_once_on_returning_runs_witness:
  "fst (hash_cracking_run (world_but []) ''t1'' md5_hash None) = Returned \<and>
   status (results (snd (hash_cracking_run (world_but []) ''t1'' md5_hash None))) = ''success'' \<and>
   (\<exists>i. entries ''cleanup_cache'' (snd (hash_cracking_run (world_but []) ''t1'' md5_hash None)) =
          [i] \<and> status (inv_results i) = ''running'') \<and>
   activity (world_but [fetch_fails]) []
     (get_target_call (world_but [fetch_fails]) ''t1'' ''isolated'') =
     Inl (ActivityError ''download failed'') \<and>
   entries ''cleanup_cache''
     (snd (hash_cracking_run (world_but [fetch_fails]) ''t1'' md5_hash None)) = []"
proof -
  have ret: "fst (hash_cracking_run (world_but []) ''t1'' md5_hash None) = Returned"
    by (simp add: run_defs call_defs world_defs module_defs)
  have st: "status (results (snd (hash_cracking_run (world_but []) ''t1'' md5_hash None))) =
              ''success''"
    by (simp add: run_defs call_defs world_defs module_defs)
  have f: "activity (world_but [fetch_fails]) []
             (get_target_call (world_but [fetch_fails]) ''t1'' ''isolated'') =
           Inl (ActivityError ''download failed'')"
    by (simp add: world_but_def scripted_def fetch_fails_def get_target_call_def)
  have a: "cleanup_rule (world_but []) (get_target_call (world_but []) ''t1'' ''isolated'')
             (hash_cracking_run (world_but []) ''t1'' md5_hash None)"
    using cleanup_once_on_returning_runs [of "world_but []" "''t1''" md5_hash None] by simp
  have b: "cleanup_rule (world_but [fetch_fails])
             (get_target_call (world_but [fetch_fails]) ''t1'' ''isolated'')
             (hash_cracking_run (world_but [fetch_fails]) ''t1'' md5_hash None)"
    using cleanup_once_on_returning_runs [of "world_but [fetch_fails]" "''t1''" md5_hash None]
    by simp
  from a ret st have "\<exists>i. entries ''cleanup_cache''
        (snd (hash_cracking_run (world_but []) ''t1'' md5_hash None)) = [i] \<and>
        status (inv_results i) = ''running''"
    by (simp add: cleanup_rule_def)
  moreover from b f have "entries ''cleanup_cache''
     (snd (hash_cracking_run (world_but [fetch_fails]) ''t1'' md5_hash None)) = []"
    by (simp add: cleanup_rule_def)
  ultimately show ?thesis using ret st f by simp
qed

section \<open>Status and critical steps in the hash-cracking workflow\<close>

lemma steps_execute_activity: "steps (results (snd (execute_activity w c st))) = steps (results st)"
  by (simp add: execute_activity_def)

lemma steps_tail:
  "steps (results (snd (mark_success (PDict kvs)
       (cleanup w tp (upload_step w ar (report_step w c st)))))) = steps (results st)"
  by (simp add: mark_success_def Let_def cleanup_def upload_step_def report_step_def
      execute_activity_def split: sum.splits)

lemma crack_or_stop_crack: "crack_or_stop w h tp st (crack w h tp m st)"
proof -
  have "crack w h tp m st = crack w h tp m st \<and> trace st = trace st @ [] \<and>
        list_all returned [] \<and>
        list_all (\<lambda>i. activity_name (inv_call i) \<noteq> ''run_hashcat'') [] \<and>
        status (results st) = status (results st)"
    by simp
  then show ?thesis unfolding crack_or_stop_def by blast
qed

lemma crack_or_stop_stop:
  assumes "entries ''run_hashcat'' st' = entries ''run_hashcat'' st"
    and "status (results st') \<in> {status (results st), ''aborted'', ''needs_selection''}"
  shows "crack_or_stop w h tp st (res, st')"
  using assms by (simp add: crack_or_stop_def)

lemma crack_or_stop_abort_no_match: "crack_or_stop w h tp st (abort_no_match w h tp st)"
proof (cases "abort_no_match w h tp st")
  case (Pair res st')
  have "entries ''run_hashcat'' st' = entries ''run_hashcat'' st \<and>
        status (results st') \<in> {status (results st), ''aborted'', ''needs_selection''}"
    using Pair
    by (auto simp add: abort_no_match_cases entries_def trace_cleanup results_cleanup
        trace_execute_activity results_execute_activity sarif_call_def cleanup_call_def
        split: sum.splits)
  then show ?thesis by (simp add: Pair crack_or_stop_stop)
qed

lemma crack_or_stop_abort_no_mode: "crack_or_stop w h tp st (abort_no_mode w f tp st)"
proof (cases "abort_no_mode w f tp st")
  case (Pair res st')
  have "entries ''run_hashcat'' st' = entries ''run_hashcat'' st \<and>
        status (results st') \<in> {status (results st), ''aborted'', ''needs_selection''}"
    using Pair
    by (auto simp add: abort_no_mode_cases entries_def trace_cleanup results_cleanup
        trace_execute_activity results_execute_activity sarif_call_def cleanup_call_def
        split: sum.splits)
  then show ?thesis by (simp add: Pair crack_or_stop_stop)
qed

lemma crack_or_stop_needs_selection:
  "crack_or_stop w h tp st (needs_selection w (PDict kvs) fs tp st)"
proof (cases "needs_selection w (PDict kvs) fs tp st")
  case (Pair res st')
  have "entries ''run_hashcat'' st' = entries ''run_hashcat'' st \<and>
        status (results st') \<in> {status (results st), ''aborted'', ''needs_selection''}"
    using Pair
    by (auto simp add: needs_selection_cases entries_def trace_cleanup results_cleanup
        trace_execute_activity results_execute_activity sarif_call_def cleanup_call_def
        split: sum.splits)
  then show ?thesis by (simp add: Pair crack_or_stop_stop)
qed

text \<open>A part that follows invocations which all returned inherits from the part after them.\<close>

lemma crack_or_stop_extend:
  assumes "crack_or_stop w h tp st1 r"
    and "trace st1 = trace st @ new"
    and "list_all returned new"
    and "list_all (\<lambda>i. activity_name (inv_call i) \<noteq> ''run_hashcat'') new"
    and "status (results st1) = status (results st)"
  shows "crack_or_stop w h tp st r"
proof -
  have same: "entries ''run_hashcat'' st1 = entries ''run_hashcat'' st"
    using assms(2,4) by (simp add: entries_def list_all_iff filter_empty_conv)
  from assms(1) consider
    (crack) m st' new' where "r = crack w h tp m st'" "trace st' = trace st1 @ new'"
      "list_all returned new'"
      "list_all (\<lambda>i. activity_name (inv_call i) \<noteq> ''run_hashcat'') new'"
      "status (results st') = status (results st1)"
  | (stop) "entries ''run_hashcat'' (snd r) = entries ''run_hashcat'' st1"
      "status (results (snd r)) \<in> {status (results st1), ''aborted'', ''needs_selection''}"
    unfolding crack_or_stop_def by blast
  then show ?thesis
  proof cases
    case crack
    then have "r = crack w h tp m st' \<and> trace st' = trace st @ (new @ new') \<and>
        list_all returned (new @ new') \<and>
        list_all (\<lambda>i. activity_name (inv_call i) \<noteq> ''run_hashcat'') (new @ new') \<and>
        status (results st') = status (results st)"
      using assms(2-5) by simp
    then show ?thesis unfolding crack_or_stop_def by blast
  next
    case stop
    then show ?thesis using same assms(5) by (simp add: crack_or_stop_def)
  qed
qed

lemma crack_or_stop_from_step:
  assumes "crack_or_stop w h tp (append_step s st) r"
  shows "crack_or_stop w h tp st r"
  using assms
  by (rule crack_or_stop_extend [where new = "[]"])
     (simp_all add: trace_append_step status_append_step)

lemma crack_or_stop_after_hashid: "crack_or_stop w h tp st (after_hashid w h tp r st)"
proof (cases "py_get2 r ''summary'' ''total_matches'' (PInt 0)")
  case (Inl e)
  then show ?thesis by (simp add: after_hashid_def crack_or_stop_stop)
next
  case tm: (Inr total_matches)
  let ?st1 = "append_step (StepRecord ''hash_identification'' (PStr ''success'')
                             [(''total_matches'', total_matches)] None) st"
  have raise: "crack_or_stop w h tp st (Inl e, ?st1)" for e
    by (rule crack_or_stop_stop) (simp_all add: entries_append_step status_append_step)
  show ?thesis
  proof (cases "py_get r ''findings'' (PList [])")
    case (Inl e)
    with tm raise show ?thesis by (simp add: after_hashid_def Let_def)
  next
    case fs: (Inr fs)
    then obtain kvs where r: "r = PDict kvs" by (auto dest: py_get_dict)
    show ?thesis
    proof (cases "py_eq_zero total_matches")
      case True
      have "crack_or_stop w h tp st (abort_no_match w h tp ?st1)"
        by (rule crack_or_stop_from_step) (rule crack_or_stop_abort_no_match)
      with tm fs True show ?thesis by (simp add: after_hashid_def Let_def)
    next
      case False
      show ?thesis
      proof (cases "py_gt_one total_matches")
        case (Inl e)
        with tm fs False raise show ?thesis by (simp add: after_hashid_def Let_def)
      next
        case gt: (Inr many)
        show ?thesis
        proof (cases many)
          case True
          have "crack_or_stop w h tp st (needs_selection w (PDict kvs) fs tp ?st1)"
            by (rule crack_or_stop_from_step) (rule crack_or_stop_needs_selection)
          with tm fs False gt True r show ?thesis by (simp add: after_hashid_def Let_def)
        next
          case one: False
          show ?thesis
          proof (cases "py_index0 fs")
            case (Inl e)
            with tm fs False gt one raise show ?thesis by (simp add: after_hashid_def Let_def)
          next
            case f0: (Inr finding0)
            show ?thesis
            proof (cases "py_get2 finding0 ''metadata'' ''hashcat_mode'' PNone")
              case (Inl e)
              with tm fs False gt one f0 raise show ?thesis
                by (simp add: after_hashid_def Let_def)
            next
              case (Inr hashcat_mode)
              have "crack_or_stop w h tp st (abort_no_mode w finding0 tp ?st1)"
                by (rule crack_or_stop_from_step) (rule crack_or_stop_abort_no_mode)
              moreover have "crack_or_stop w h tp st (crack w h tp hashcat_mode ?st1)"
                by (rule crack_or_stop_from_step) (rule crack_or_stop_crack)
              ultimately show ?thesis
                using tm fs False gt one f0 Inr by (simp add: after_hashid_def Let_def)
            qed
          qed
        qed
      qed
    qed
  qed
qed

lemma crack_or_stop_determine_and_crack:
  "crack_or_stop w h tp st (determine_and_crack w h hint tp st)"
proof (cases hint)
  case (Some mode)
  then show ?thesis by (simp add: determine_and_crack_def crack_or_stop_crack)
next
  case None
  let ?st1 = "snd (execute_activity w (hashid_call tp h) st)"
  show ?thesis
  proof (cases "activity w (calls st) (hashid_call tp h)")
    case (Inl e)
    have "crack_or_stop w h tp st (Inl e, ?st1)"
      by (rule crack_or_stop_stop)
         (simp_all add: entries_execute_activity results_execute_activity hashid_call_def)
    with None Inl show ?thesis by (simp add: determine_and_crack_identify)
  next
    case (Inr r)
    have "crack_or_stop w h tp ?st1 (after_hashid w h tp r ?st1)"
      by (rule crack_or_stop_after_hashid)
    moreover have "trace ?st1 = trace st @ [Invocation (hashid_call tp h) (results st) (Inr r)]"
      by (simp add: trace_execute_activity Inr)
    moreover have "list_all returned [Invocation (hashid_call tp h) (results st) (Inr r)]"
      by (simp add: returned_def)
    moreover have "list_all (\<lambda>i. activity_name (inv_call i) \<noteq> ''run_hashcat'')
                     [Invocation (hashid_call tp h) (results st) (Inr r)]"
      by (simp add: hashid_call_def)
    moreover have "status (results ?st1) = status (results st)"
      by (simp add: results_execute_activity)
    ultimately have "crack_or_stop w h tp st (after_hashid w h tp r ?st1)"
      by (rule crack_or_stop_extend)
    with None Inr show ?thesis by (simp add: determine_and_crack_identify)
  qed
qed

lemma fst_finish: "fst (finish (res, st)) = (case res of Inl e \<Rightarrow> Raised e | Inr u \<Rightarrow> Returned)"
  by (simp add: finish_def split: sum.splits)

lemma finish_raise: "finish (Inl e, st) = (Raised e, handle_failure e st)"
  by (simp add: finish_def)

lemma finish_return: "fst r = Inr () \<Longrightarrow> finish r = (Returned, snd r)"
  by (cases r) (simp add: finish_def)

lemma not_critical_best_effort:
  "\<not> critical (sarif_call a tp)" "\<not> critical (upload_call w a)"
  "\<not> critical (cleanup_call tp isolation)"
  by (simp_all add: critical_def sarif_call_def upload_call_def cleanup_call_def)

lemma success_rule_raised:
  assumes "entries ''run_hashcat'' st = [] \<or>
           entries ''run_hashcat'' st = [Invocation c r0 (Inl e)]"
  shows "success_rule (Raised e, handle_failure e st)"
  using assms
  by (auto simp add: success_rule_def status_handle_failure entries_handle_failure)

lemma success_rule_raised_returned:
  assumes "entries ''run_hashcat'' st = [Invocation c r0 (Inr hr)]"
    and "py_get hr ''status'' (PStr ''unknown'') = Inl e' \<or>
         py_get2 hr ''summary'' ''plaintext'' (PStr []) = Inl e'"
  shows "success_rule (Raised e, handle_failure e st)"
  using assms
  by (auto simp add: success_rule_def status_handle_failure entries_handle_failure)

lemma success_rule_finish_crack:
  assumes all: "list_all returned (trace st)"
    and none: "list_all (\<lambda>i. activity_name (inv_call i) \<noteq> ''run_hashcat'') (trace st)"
  shows "success_rule (finish (crack w h tp m st))"
proof -
  let ?c = "hashcat_call tp h m"
  let ?st1 = "snd (execute_activity w ?c st)"
  have no_entries: "entries ''run_hashcat'' st = []"
    using none by (simp add: entries_def list_all_iff filter_empty_conv)
  have e1: "entries ''run_hashcat'' ?st1 =
              [Invocation ?c (results st) (activity w (calls st) ?c)]"
    by (simp add: entries_execute_activity no_entries hashcat_call_def)
  show ?thesis
  proof (cases "activity w (calls st) ?c")
    case (Inl e)
    then have "crack w h tp m st = (Inl e, ?st1)" by (rule crack_raises)
    moreover have "success_rule (Raised e, handle_failure e ?st1)"
      by (rule success_rule_raised) (simp add: e1 Inl)
    ultimately show ?thesis by (simp add: finish_raise)
  next
    case (Inr hr)
    note body = crack_returns [OF Inr]
    show ?thesis
    proof (cases "py_get hr ''status'' (PStr ''unknown'')")
      case (Inl e)
      have "success_rule (Raised e, handle_failure e ?st1)"
        by (rule success_rule_raised_returned [where hr = hr and e' = e])
           (simp_all add: e1 Inr Inl)
      with Inl show ?thesis by (simp add: body finish_raise)
    next
      case hs: (Inr hstatus)
      then obtain kvs where hr: "hr = PDict kvs" by (auto dest: py_get_dict)
      show ?thesis
      proof (cases "py_get2 hr ''summary'' ''plaintext'' (PStr [])")
        case (Inl e)
        have "success_rule (Raised e, handle_failure e ?st1)"
          by (rule success_rule_raised_returned [where hr = hr and e' = e])
             (simp_all add: e1 Inr Inl)
        with hs Inl show ?thesis by (simp add: body finish_raise)
      next
        case pt: (Inr plaintext)
        let ?st2 = "append_step
                      (StepRecord ''hash_cracking'' hstatus [(''plaintext'', plaintext)] None)
                      ?st1"
        let ?final = "snd (mark_success (PDict kvs)
                        (cleanup w tp (upload_step w (PDict kvs)
                           (report_step w (sarif_call (PDict kvs) tp) ?st2))))"
        have run: "finish (crack w h tp m st) = (Returned, ?final)"
          using hs pt hr by (simp add: body finish_return mark_success_dict)
        have st: "status (results ?final) = ''success''"
          by (rule mark_success_dict)
        have tr: "\<exists>rest. trace ?final =
                   trace st @ Invocation ?c (results st) (Inr hr) # rest \<and>
                   list_all (\<lambda>i. \<not> critical (inv_call i) \<and>
                                  activity_name (inv_call i) \<noteq> ''run_hashcat'') rest"
          by (simp add: trace_mark_success trace_cleanup trace_upload_step trace_report_step
              trace_append_step trace_execute_activity Inr not_critical_best_effort)
             (simp add: sarif_call_def upload_call_def cleanup_call_def)
        then obtain rest where
          tr1: "trace ?final = trace st @ Invocation ?c (results st) (Inr hr) # rest" and
          tr2: "list_all (\<lambda>i. \<not> critical (inv_call i) \<and>
                                activity_name (inv_call i) \<noteq> ''run_hashcat'') rest"
          by blast
        have crit: "\<forall>i \<in> set (trace ?final). critical (inv_call i) \<longrightarrow> returned i"
          using all tr2 by (auto simp add: tr1 list_all_iff returned_def)
        have ent: "entries ''run_hashcat'' ?final = [Invocation ?c (results st) (Inr hr)]"
        proof -
          have nm: "activity_name ?c = ''run_hashcat''" by (simp add: hashcat_call_def)
          show ?thesis
            using none tr2 nm by (simp add: entries_def tr1 list_all_iff filter_empty_conv)
        qed
        have lst: "last (steps (results ?final)) =
                     StepRecord ''hash_cracking'' hstatus [(''plaintext'', plaintext)] None"
          by (simp add: steps_tail append_step_def)
        show ?thesis
          unfolding run
          using st crit ent lst hs pt
          by (simp add: success_rule_def)
      qed
    qed
  qed
qed

lemma success_rule_no_crack:
  assumes "entries ''run_hashcat'' st = []"
    and "status (results st) \<noteq> ''success''"
  shows "success_rule (finish (res, st))"
  using assms
  by (cases res)
     (simp_all add: success_rule_def finish_def entries_handle_failure status_handle_failure)

lemma hash_cracking_success_rule: "success_rule (hash_cracking_run w tid h hint)"
proof (cases "activity w [] (get_target_call w tid ''isolated'')")
  case (Inl e)
  have "success_rule
          (Raised e,
           handle_failure e
             (snd (get_target w tid ''isolated''
                     \<lparr>results = initial_results w tid, trace = []\<rparr>)))"
    by (rule success_rule_raised)
       (simp add: get_target_def trace_execute_activity get_target_call_def entries_def)
  with Inl show ?thesis by (simp add: hash_cracking_run_cases)
next
  case (Inr tp)
  let ?st = "after_fetch w tid tp"
  let ?r = "determine_and_crack w h hint tp ?st"
  have fetched: "trace ?st =
      [Invocation (get_target_call w tid ''isolated'') (initial_results w tid) (Inr tp)]"
    by (simp add: trace_after_fetch Inr)
  have "crack_or_stop w h tp ?st ?r" by (rule crack_or_stop_determine_and_crack)
  then consider
    (crack) m st' new where "?r = crack w h tp m st'" "trace st' = trace ?st @ new"
      "list_all returned new"
      "list_all (\<lambda>i. activity_name (inv_call i) \<noteq> ''run_hashcat'') new"
  | (stop) "entries ''run_hashcat'' (snd ?r) = entries ''run_hashcat'' ?st"
      "status (results (snd ?r)) \<in> {status (results ?st), ''aborted'', ''needs_selection''}"
    unfolding crack_or_stop_def by blast
  then have "success_rule (finish ?r)"
  proof cases
    case crack
    have "list_all returned (trace st')"
      using crack(3) by (simp add: crack(2) fetched returned_def)
    moreover have "list_all (\<lambda>i. activity_name (inv_call i) \<noteq> ''run_hashcat'') (trace st')"
      using crack(4) by (simp add: crack(2) fetched get_target_call_def)
    ultimately show ?thesis unfolding crack(1) by (rule success_rule_finish_crack)
  next
    case stop
    have "entries ''run_hashcat'' ?st = []"
      by (simp add: entries_def fetched get_target_call_def)
    then have "entries ''run_hashcat'' (snd ?r) = []"
      by (simp add: stop(1))
    moreover have "status (results (snd ?r)) \<noteq> ''success''"
      using stop(2) by (auto simp add: status_after_fetch)
    ultimately have "success_rule (finish (fst ?r, snd ?r))" by (rule success_rule_no_crack)
    then show ?thesis by simp
  qed
  with Inr show ?thesis by (simp add: hash_cracking_run_cases)
qed

text \<open>
  Claim C8, as stated, fails: with a hint, when the cracking activity returns the module's
  \<^verbatim>\<open>failed\<close> result instead of raising, the run returns with status \<^verbatim>\<open>success\<close>; the
  failure shows only as the status of the \<^verbatim>\<open>hash_cracking\<close> step record.
\<close>

theorem success_despite_failed_cracking:
  "fst (hash_cracking_run (world_but [crack_returns_failed])
          ''t1'' md5_hash (Some 0)) = Returned \<and>
   status (results (snd (hash_cracking_run
          (world_but [crack_returns_failed])
          ''t1'' md5_hash (Some 0)))) = ''success'' \<and>
   step_status (last (steps (results (snd (hash_cracking_run
          (world_but [crack_returns_failed])
          ''t1'' md5_hash (Some 0)))))) = PStr ''failed''"
  by (simp add: run_defs call_defs world_defs)

text \<open>
  Claim C8, amended. The status of a hash-cracking run is \<^verbatim>\<open>success\<close> only if the run
  returned and every critical activity it invoked (fetch, identification, cracking) returned
  instead of raising, the cracking activity having been invoked. If the cracking activity
  raises, the run ends by that exception with status \<^verbatim>\<open>error\<close>. If the cracking activity
  returns a result the workflow can read, the run returns with status \<^verbatim>\<open>success\<close> whatever
  the result's own status field says: that field is recorded as the status of the
  \<^verbatim>\<open>hash_cracking\<close> step record, the last one.
\<close>

theorem success_only_if_critical_activities_return:
  "success_rule (hash_cracking_run w tid h hint)"
  by (rule hash_cracking_success_rule)

theorem success_only_if_critical_activities_return_witness:
  "status (results (snd (hash_cracking_run (world_but []) ''t1'' md5_hash (Some 0)))) =
     ''success'' \<and>
   fst (hash_cracking_run (world_but []) ''t1'' md5_hash (Some 0)) = Returned \<and>
   entries ''run_hashcat'' (snd (hash_cracking_run (world_but []) ''t1'' md5_hash (Some 0))) \<noteq> [] \<and>
   fst (hash_cracking_run (world_but [crack_fails]) ''t1'' md5_hash (Some 0)) =
     Raised (ActivityError ''hashcat crashed'') \<and>
   status (results (snd (hash_cracking_run (world_but [crack_fails]) ''t1'' md5_hash (Some 0)))) =
     ''error'' \<and>
   status (results (snd (hash_cracking_run (world_but [crack_returns_failed])
                           ''t1'' md5_hash (Some 0)))) = ''success'' \<and>
   last (steps (results (snd (hash_cracking_run (world_but [crack_returns_failed])
                                ''t1'' md5_hash (Some 0))))) =
     StepRecord ''hash_cracking'' (PStr ''failed'') [(''plaintext'', PStr [])] None"
proof -
  let ?A = "hash_cracking_run (world_but []) ''t1'' md5_hash (Some 0)"
  let ?B = "hash_cracking_run (world_but [crack_fails]) ''t1'' md5_hash (Some 0)"
  let ?C = "hash_cracking_run (world_but [crack_returns_failed]) ''t1'' md5_hash (Some 0)"
  have a: "status (results (snd ?A)) = ''success''"
    by (simp add: run_defs call_defs world_defs)
  have b: "map inv_outcome (entries ''run_hashcat'' (snd ?B)) =
             [Inl (ActivityError ''hashcat crashed'')]"
    by (simp add: entries_def run_defs call_defs world_defs)
  have c: "map inv_outcome (entries ''run_hashcat'' (snd ?C)) = [Inr failed_crack_result]"
    by (simp add: entries_def run_defs call_defs world_defs)
  have c1: "py_get failed_crack_result ''status'' (PStr ''unknown'') = Inr (PStr ''failed'')"
    by (simp add: failed_crack_result_def)
  have c2: "py_get2 failed_crack_result ''summary'' ''plaintext'' (PStr []) = Inr (PStr [])"
    by (simp add: failed_crack_result_def py_get2_def)
  from b obtain i where i: "i \<in> set (entries ''run_hashcat'' (snd ?B))"
    "inv_outcome i = Inl (ActivityError ''hashcat crashed'')"
    by (cases "entries ''run_hashcat'' (snd ?B)") auto
  from c obtain j where j: "j \<in> set (entries ''run_hashcat'' (snd ?C))"
    "inv_outcome j = Inr failed_crack_result"
    by (cases "entries ''run_hashcat'' (snd ?C)") auto
  have ra: "success_rule ?A"
    by (rule success_only_if_critical_activities_return)
  have rb: "success_rule ?B"
    by (rule success_only_if_critical_activities_return)
  have rc: "success_rule ?C"
    by (rule success_only_if_critical_activities_return)
  from ra a have "fst ?A = Returned \<and> entries ''run_hashcat'' (snd ?A) \<noteq> []"
    by (simp add: success_rule_def)
  moreover from rb i have "fst ?B = Raised (ActivityError ''hashcat crashed'') \<and>
      status (results (snd ?B)) = ''error''"
    unfolding success_rule_def by blast
  moreover from rc j c1 c2 have "status (results (snd ?C)) = ''success'' \<and>
      last (steps (results (snd ?C))) =
        StepRecord ''hash_cracking'' (PStr ''failed'') [(''plaintext'', PStr [])] None"
    unfolding success_rule_def by blast
  ultimately show ?thesis using a by simp
qed

section \<open>The branches that end a hash-cracking run without cracking\<close>

lemma calls_after_identification:
  "calls (after_identification w tid h tp tm) =
     [get_target_call w tid ''isolated'', hashid_call tp h]"
  by (simp add: calls_def trace_after_identification)

lemma after_hashid_zero:
  assumes "py_get2 r ''summary'' ''total_matches'' (PInt 0) = Inr tm"
    and "py_eq_zero tm"
    and "py_get r ''findings'' (PList []) = Inr fs"
  shows "after_hashid w h tp r st =
           abort_no_match w h tp
             (append_step (StepRecord ''hash_identification'' (PStr ''success'')
                             [(''total_matches'', tm)] None) st)"
  using assms by (simp add: after_hashid_def Let_def)

lemma after_hashid_many:
  assumes "py_get2 (PDict kvs) ''summary'' ''total_matches'' (PInt 0) = Inr tm"
    and "\<not> py_eq_zero tm"
    and "py_gt_one tm = Inr True"
  shows "after_hashid w h tp (PDict kvs) st =
           needs_selection w (PDict kvs)
             (case map_of kvs ''findings'' of None \<Rightarrow> PList [] | Some v \<Rightarrow> v) tp
             (append_step (StepRecord ''hash_identification'' (PStr ''success'')
                             [(''total_matches'', tm)] None) st)"
  using assms by (simp add: after_hashid_def Let_def)

lemma run_zero_matches:
  assumes "activity w [] (get_target_call w tid ''isolated'') = Inr tp"
    and "activity w [get_target_call w tid ''isolated''] (hashid_call tp h) = Inr r"
    and "py_get2 r ''summary'' ''total_matches'' (PInt 0) = Inr tm"
    and "py_eq_zero tm"
    and "py_get r ''findings'' (PList []) = Inr fs"
  shows "hash_cracking_run w tid h None =
           finish (abort_no_match w h tp (after_identification w tid h tp tm))"
  using assms
  by (simp add: run_fetch_returns identify_returns after_hashid_zero after_identification_def)

lemma run_many_matches:
  assumes "activity w [] (get_target_call w tid ''isolated'') = Inr tp"
    and "activity w [get_target_call w tid ''isolated''] (hashid_call tp h) = Inr (PDict kvs)"
    and "py_get2 (PDict kvs) ''summary'' ''total_matches'' (PInt 0) = Inr tm"
    and "\<not> py_eq_zero tm"
    and "py_gt_one tm = Inr True"
  shows "hash_cracking_run w tid h None =
           finish (needs_selection w (PDict kvs)
                     (case map_of kvs ''findings'' of None \<Rightarrow> PList [] | Some v \<Rightarrow> v) tp
                     (after_identification w tid h tp tm))"
  using assms
  by (simp add: run_fetch_returns identify_returns after_hashid_many after_identification_def)

lemma run_no_mode:
  assumes "activity w [] (get_target_call w tid ''isolated'') = Inr tp"
    and "activity w [get_target_call w tid ''isolated''] (hashid_call tp h) = Inr r"
    and "py_get2 r ''summary'' ''total_matches'' (PInt 0) = Inr (PInt 1)"
    and "py_get r ''findings'' (PList []) = Inr (PList (f # fs))"
    and "py_get2 f ''metadata'' ''hashcat_mode'' PNone = Inr PNone"
  shows "hash_cracking_run w tid h None =
           finish (abort_no_mode w f tp (after_identification w tid h tp (PInt 1)))"
  using assms
  by (simp add: run_fetch_returns identify_returns after_hashid_single
      after_identification_def Let_def)

lemma call_names:
  "activity_name (sarif_call a tp) = ''generate_sarif_report_activity''"
  "activity_name (hashcat_call tp h m) = ''run_hashcat''"
  "activity_name (hashid_call tp h) = ''run_hashid''"
  "activity_name (cleanup_call tp isolation) = ''cleanup_cache''"
  "activity_name (upload_call w a) = ''upload_results''"
  "activity_name (get_target_call w tid isolation) = ''get_target''"
  by (simp_all add: call_defs)

lemma entries_after_identification:
  "entries ''run_hashcat'' (after_identification w tid h tp tm) = []"
  "entries ''cleanup_cache'' (after_identification w tid h tp tm) = []"
  by (simp_all add: entries_def trace_after_identification call_defs)

lemma findings_after_identification:
  "findings (results (after_identification w tid h tp tm)) = None"
  by (simp add: after_identification_def after_fetch_def append_step_def get_target_def
      results_execute_activity initial_results_def)

lemma findings_handle_failure:
  "findings (results (handle_failure e st)) = findings (results st)"
  by (simp add: handle_failure_def append_step_def)

text \<open>
  What a branch that reports and stops leaves behind, by the outcome of its report activity:
  \<open>st\<close> is the state the branch starts in, \<open>c\<close> its report invocation.
\<close>

lemma stopped_by_report:
  assumes "activity w (calls st) c = Inl e"
    and "activity_name c = ''generate_sarif_report_activity''"
  shows "fst (finish (Inl e, snd (execute_activity w c st))) = Raised e"
    and "status (results (snd (finish (Inl e, snd (execute_activity w c st))))) = ''error''"
    and "findings (results (snd (finish (Inl e, snd (execute_activity w c st))))) =
           findings (results st)"
    and "entries ''run_hashcat'' (snd (finish (Inl e, snd (execute_activity w c st)))) =
           entries ''run_hashcat'' st"
    and "entries ''cleanup_cache'' (snd (finish (Inl e, snd (execute_activity w c st)))) =
           entries ''cleanup_cache'' st"
  using assms
  by (simp_all add: finish_raise status_handle_failure findings_handle_failure
      entries_handle_failure entries_execute_activity results_execute_activity)

lemma stopped_after_cleanup:
  assumes "activity_name c = ''generate_sarif_report_activity''"
  shows "fst (finish (Inr (), cleanup w tp ((snd (execute_activity w c st))\<lparr>results := r\<rparr>))) =
           Returned"
    and "results (snd (finish (Inr (),
            cleanup w tp ((snd (execute_activity w c st))\<lparr>results := r\<rparr>)))) = r"
    and "entries ''run_hashcat'' (snd (finish (Inr (),
            cleanup w tp ((snd (execute_activity w c st))\<lparr>results := r\<rparr>)))) =
           entries ''run_hashcat'' st"
    and "map inv_call (entries ''cleanup_cache'' (snd (finish (Inr (),
            cleanup w tp ((snd (execute_activity w c st))\<lparr>results := r\<rparr>))))) =
           map inv_call (entries ''cleanup_cache'' st) @ [cleanup_call tp ''isolated'']"
  using assms
  by (simp_all add: finish_def results_cleanup entries_def trace_cleanup
      trace_execute_activity cleanup_call_def)

text \<open>
  No matches: the cracking activity is never invoked. When the report activity of the branch
  returns, the run returns \<^verbatim>\<open>aborted\<close> with the one synthetic Finding, after one cleanup.
  When it raises, the run ends by that exception with status \<^verbatim>\<open>error\<close>, without Finding
  and without cleanup.
\<close>

lemma zero_matches_report_returns:
  assumes "activity w [] (get_target_call w tid ''isolated'') = Inr tp"
    and "activity w [get_target_call w tid ''isolated''] (hashid_call tp h) = Inr r"
    and "py_get2 r ''summary'' ''total_matches'' (PInt 0) = Inr tm"
    and "py_eq_zero tm"
    and "py_get r ''findings'' (PList []) = Inr fs"
    and "activity w [get_target_call w tid ''isolated'', hashid_call tp h]
           (sarif_call (PDict [(''findings'', no_match_findings h)]) tp) = Inr report"
  shows "fst (hash_cracking_run w tid h None) = Returned \<and>
         status (results (snd (hash_cracking_run w tid h None))) = ''aborted'' \<and>
         findings (results (snd (hash_cracking_run w tid h None))) =
           Some (no_match_findings h) \<and>
         error (results (snd (hash_cracking_run w tid h None))) =
           Some (Literal ''No matching hash type found'') \<and>
         invoked ''run_hashcat'' (snd (hash_cracking_run w tid h None)) = [] \<and>
         invoked ''cleanup_cache'' (snd (hash_cracking_run w tid h None)) =
           [cleanup_call tp ''isolated'']"
  unfolding run_zero_matches [OF assms(1-5)] invoked_def
  by (simp add: abort_no_match_cases calls_after_identification assms(6)
      stopped_after_cleanup entries_after_identification call_names)

lemma zero_matches_report_raises:
  assumes "activity w [] (get_target_call w tid ''isolated'') = Inr tp"
    and "activity w [get_target_call w tid ''isolated''] (hashid_call tp h) = Inr r"
    and "py_get2 r ''summary'' ''total_matches'' (PInt 0) = Inr tm"
    and "py_eq_zero tm"
    and "py_get r ''findings'' (PList []) = Inr fs"
    and "activity w [get_target_call w tid ''isolated'', hashid_call tp h]
           (sarif_call (PDict [(''findings'', no_match_findings h)]) tp) = Inl e"
  shows "fst (hash_cracking_run w tid h None) = Raised e \<and>
         status (results (snd (hash_cracking_run w tid h None))) = ''error'' \<and>
         findings (results (snd (hash_cracking_run w tid h None))) = None \<and>
         invoked ''run_hashcat'' (snd (hash_cracking_run w tid h None)) = [] \<and>
         invoked ''cleanup_cache'' (snd (hash_cracking_run w tid h None)) = []"
  unfolding run_zero_matches [OF assms(1-5)] invoked_def
  by (simp add: abort_no_match_cases calls_after_identification assms(6)
      stopped_by_report entries_after_identification findings_after_identification
      call_names)

text \<open>
  Claim C1. With no hint and zero candidate matches the run should end with status
  \<^verbatim>\<open>aborted\<close> and the one Finding \<^verbatim>\<open>No Hash Type Identified\<close>, the cracking activity never
  invoked (\<open>zero_matches_report_returns\<close>: so it does whenever the report activity of the
  branch returns). The report is generated outside any \<^verbatim>\<open>try\<close> of its own there, unlike at
  step 4: in the run below the identification returns zero matches, the report activity
  raises, and the run ends by that exception with status \<^verbatim>\<open>error\<close>, no Finding and no cleanup.
\<close>

theorem zero_matches_error_when_report_raises:
  "py_get2 (identified []) ''summary'' ''total_matches'' (PInt 0) = Inr (PInt 0) \<and>
   fst (hash_cracking_run (world_but [identifies [], report_fails]) ''t1'' md5_hash None) =
     Raised (ActivityError ''report failed'') \<and>
   status (results (snd (hash_cracking_run (world_but [identifies [], report_fails])
                           ''t1'' md5_hash None))) = ''error'' \<and>
   findings (results (snd (hash_cracking_run (world_but [identifies [], report_fails])
                             ''t1'' md5_hash None))) = None \<and>
   invoked ''run_hashcat'' (snd (hash_cracking_run (world_but [identifies [], report_fails])
                                   ''t1'' md5_hash None)) = [] \<and>
   invoked ''cleanup_cache'' (snd (hash_cracking_run (world_but [identifies [], report_fails])
                                     ''t1'' md5_hash None)) = []"
  by (simp add: invoked_def entries_def run_defs call_defs world_defs module_defs)

text \<open>
  Several matches: the cracking activity is never invoked. When the report activity of the
  branch returns, the run returns \<^verbatim>\<open>needs_selection\<close> with the findings of the identification
  and the guidance message, after one cleanup. When it raises, the run ends by that exception
  with status \<^verbatim>\<open>error\<close>.
\<close>

lemma many_matches_report_returns:
  assumes "activity w [] (get_target_call w tid ''isolated'') = Inr tp"
    and "activity w [get_target_call w tid ''isolated''] (hashid_call tp h) = Inr (PDict kvs)"
    and "py_get2 (PDict kvs) ''summary'' ''total_matches'' (PInt 0) = Inr tm"
    and "\<not> py_eq_zero tm"
    and "py_gt_one tm = Inr True"
    and "activity w [get_target_call w tid ''isolated'', hashid_call tp h]
           (sarif_call (PDict kvs) tp) = Inr report"
  shows "fst (hash_cracking_run w tid h None) = Returned \<and>
         status (results (snd (hash_cracking_run w tid h None))) = ''needs_selection'' \<and>
         py_get (PDict kvs) ''findings'' (PList []) =
           Inr (the (findings (results (snd (hash_cracking_run w tid h None))))) \<and>
         findings (results (snd (hash_cracking_run w tid h None))) \<noteq> None \<and>
         message (results (snd (hash_cracking_run w tid h None))) =
           Some ''Multiple hash types identified. Please re-run with a specific hash_type parameter.'' \<and>
         invoked ''run_hashcat'' (snd (hash_cracking_run w tid h None)) = [] \<and>
         invoked ''cleanup_cache'' (snd (hash_cracking_run w tid h None)) =
           [cleanup_call tp ''isolated'']"
  unfolding run_many_matches [OF assms(1-5)] invoked_def
  by (simp add: needs_selection_cases calls_after_identification assms(6)
      stopped_after_cleanup entries_after_identification call_names)

lemma many_matches_report_raises:
  assumes "activity w [] (get_target_call w tid ''isolated'') = Inr tp"
    and "activity w [get_target_call w tid ''isolated''] (hashid_call tp h) = Inr (PDict kvs)"
    and "py_get2 (PDict kvs) ''summary'' ''total_matches'' (PInt 0) = Inr tm"
    and "\<not> py_eq_zero tm"
    and "py_gt_one tm = Inr True"
    and "activity w [get_target_call w tid ''isolated'', hashid_call tp h]
           (sarif_call (PDict kvs) tp) = Inl e"
  shows "fst (hash_cracking_run w tid h None) = Raised e \<and>
         status (results (snd (hash_cracking_run w tid h None))) = ''error'' \<and>
         findings (results (snd (hash_cracking_run w tid h None))) = None \<and>
         invoked ''run_hashcat'' (snd (hash_cracking_run w tid h None)) = [] \<and>
         invoked ''cleanup_cache'' (snd (hash_cracking_run w tid h None)) = []"
  unfolding run_many_matches [OF assms(1-5)] invoked_def
  by (simp add: needs_selection_cases calls_after_identification assms(6)
      stopped_by_report entries_after_identification findings_after_identification
      call_names)

text \<open>
  Claim C3. With no hint and two or more candidate matches the run should end with status
  \<^verbatim>\<open>needs_selection\<close>, every candidate Finding in its findings and the guidance message set,
  the cracking activity never invoked (\<open>many_matches_report_returns\<close>: so it does whenever
  the report activity of the branch returns). In the run below the identification returns
  two candidates, the report activity raises, and the run ends by that exception with status
  \<^verbatim>\<open>error\<close>, without findings, message or cleanup. The defect is the one of claim C1: a
  report generated outside any \<^verbatim>\<open>try\<close> of its own.
\<close>

theorem many_matches_error_when_report_raises:
  "py_get2 (identified [md5_info, md4_info]) ''summary'' ''total_matches'' (PInt 0) =
     Inr (PInt 2) \<and>
   fst (hash_cracking_run (world_but [identifies [md5_info, md4_info], report_fails])
          ''t1'' md5_hash None) = Raised (ActivityError ''report failed'') \<and>
   status (results (snd (hash_cracking_run
          (world_but [identifies [md5_info, md4_info], report_fails])
          ''t1'' md5_hash None))) = ''error'' \<and>
   findings (results (snd (hash_cracking_run
          (world_but [identifies [md5_info, md4_info], report_fails])
          ''t1'' md5_hash None))) = None \<and>
   message (results (snd (hash_cracking_run
          (world_but [identifies [md5_info, md4_info], report_fails])
          ''t1'' md5_hash None))) = None \<and>
   invoked ''cleanup_cache'' (snd (hash_cracking_run
          (world_but [identifies [md5_info, md4_info], report_fails])
          ''t1'' md5_hash None)) = []"
  by (simp add: invoked_def entries_def run_defs call_defs world_defs module_defs)

text \<open>The two synthetic Findings: one each, with severity \<^verbatim>\<open>warning\<close> and different titles.\<close>

lemma no_match_finding_shape:
  "\<exists>d. no_match_findings h = PList [d] \<and>
       py_get d ''title'' PNone = Inr (PStr ''No Hash Type Identified'') \<and>
       py_get d ''severity'' PNone = Inr (PStr ''warning'')"
  by (simp add: no_match_findings_def)

lemma no_mode_finding_shape:
  assumes "no_mode_findings w f = Inr nmf"
  shows "\<exists>d. nmf = PList [d] \<and>
           py_get d ''title'' PNone = Inr (PStr ''No Hashcat Mode Available'') \<and>
           py_get d ''title'' PNone \<noteq> Inr (PStr ''No Hash Type Identified'') \<and>
           py_get d ''severity'' PNone = Inr (PStr ''warning'')"
  using assms by (auto simp add: no_mode_findings_def split: sum.splits)

text \<open>
  One match without a hashcat mode: the cracking activity is never invoked. When the report
  activity of the branch returns, the run returns \<^verbatim>\<open>aborted\<close> with the one synthetic Finding
  \<^verbatim>\<open>No Hashcat Mode Available\<close>, after one cleanup. When it raises, the run ends by that
  exception with status \<^verbatim>\<open>error\<close>.
\<close>

lemma no_mode_report_returns:
  assumes "activity w [] (get_target_call w tid ''isolated'') = Inr tp"
    and "activity w [get_target_call w tid ''isolated''] (hashid_call tp h) = Inr r"
    and "py_get2 r ''summary'' ''total_matches'' (PInt 0) = Inr (PInt 1)"
    and "py_get r ''findings'' (PList []) = Inr (PList (f # fs))"
    and "py_get2 f ''metadata'' ''hashcat_mode'' PNone = Inr PNone"
    and "no_mode_findings w f = Inr nmf"
    and "activity w [get_target_call w tid ''isolated'', hashid_call tp h]
           (sarif_call (PDict [(''findings'', nmf)]) tp) = Inr report"
  shows "fst (hash_cracking_run w tid h None) = Returned \<and>
         status (results (snd (hash_cracking_run w tid h None))) = ''aborted'' \<and>
         findings (results (snd (hash_cracking_run w tid h None))) = Some nmf \<and>
         error (results (snd (hash_cracking_run w tid h None))) =
           Some (Literal ''No hashcat mode available for identified hash type'') \<and>
         invoked ''run_hashcat'' (snd (hash_cracking_run w tid h None)) = [] \<and>
         invoked ''cleanup_cache'' (snd (hash_cracking_run w tid h None)) =
           [cleanup_call tp ''isolated'']"
  unfolding run_no_mode [OF assms(1-5)] invoked_def
  by (simp add: abort_no_mode_cases calls_after_identification assms(6,7)
      stopped_after_cleanup entries_after_identification call_names)

lemma no_mode_report_raises:
  assumes "activity w [] (get_target_call w tid ''isolated'') = Inr tp"
    and "activity w [get_target_call w tid ''isolated''] (hashid_call tp h) = Inr r"
    and "py_get2 r ''summary'' ''total_matches'' (PInt 0) = Inr (PInt 1)"
    and "py_get r ''findings'' (PList []) = Inr (PList (f # fs))"
    and "py_get2 f ''metadata'' ''hashcat_mode'' PNone = Inr PNone"
    and "no_mode_findings w f = Inr nmf"
    and "activity w [get_target_call w tid ''isolated'', hashid_call tp h]
           (sarif_call (PDict [(''findings'', nmf)]) tp) = Inl e"
  shows "fst (hash_cracking_run w tid h None) = Raised e \<and>
         status (results (snd (hash_cracking_run w tid h None))) = ''error'' \<and>
         findings (results (snd (hash_cracking_run w tid h None))) = None \<and>
         invoked ''run_hashcat'' (snd (hash_cracking_run w tid h None)) = [] \<and>
         invoked ''cleanup_cache'' (snd (hash_cracking_run w tid h None)) = []"
  unfolding run_no_mode [OF assms(1-5)] invoked_def
  by (simp add: abort_no_mode_cases calls_after_identification assms(6,7)
      stopped_by_report entries_after_identification findings_after_identification
      call_names)

text \<open>
  Claim C4. With no hint and one candidate match whose metadata has no hashcat mode the run
  should end with status \<^verbatim>\<open>aborted\<close> and the one Finding \<^verbatim>\<open>No Hashcat Mode Available\<close>, the
  cracking activity never invoked (\<open>no_mode_report_returns\<close>: so it does whenever the
  report activity of the branch returns; \<open>no_mode_finding_shape\<close>: the title differs from
  the zero-match one). In the run below the identification returns the one candidate MD2,
  which has no hashcat mode, the report activity raises, and the run ends by that exception
  with status \<^verbatim>\<open>error\<close>, no Finding and no cleanup. The defect is the one of claim C1: a
  report generated outside any \<^verbatim>\<open>try\<close> of its own.
\<close>

theorem no_mode_error_when_report_raises:
  "py_get2 (identified [md2_info]) ''summary'' ''total_matches'' (PInt 0) = Inr (PInt 1) \<and>
   py_get2 (candidate_finding md5_hash 0 md2_info) ''metadata'' ''hashcat_mode'' PNone =
     Inr PNone \<and>
   fst (hash_cracking_run (world_but [identifies [md2_info], report_fails])
          ''t1'' md5_hash None) = Raised (ActivityError ''report failed'') \<and>
   status (results (snd (hash_cracking_run (world_but [identifies [md2_info], report_fails])
          ''t1'' md5_hash None))) = ''error'' \<and>
   findings (results (snd (hash_cracking_run (world_but [identifies [md2_info], report_fails])
          ''t1'' md5_hash None))) = None \<and>
   invoked ''cleanup_cache'' (snd (hash_cracking_run
          (world_but [identifies [md2_info], report_fails]) ''t1'' md5_hash None)) = []"
  by (simp add: invoked_def entries_def run_defs call_defs world_defs module_defs)

section \<open>An identification that failed inside the module\<close>

lemma no_total_matches:
  assumes "map_of kvs ''summary'' = None \<or>
           (\<exists>sm. map_of kvs ''summary'' = Some (PDict sm) \<and> map_of sm ''total_matches'' = None)"
  shows "py_get2 (PDict kvs) ''summary'' ''total_matches'' (PInt 0) = Inr (PInt 0)"
  using assms by (auto simp add: py_get2_def)

lemma steps_abort_no_match:
  "steps (results (snd (abort_no_match w h tp st))) = steps (results st)"
  by (simp add: abort_no_match_cases results_cleanup results_execute_activity
      split: sum.splits)

lemma abort_no_match_returns:
  assumes "activity w (calls st) (sarif_call (PDict [(''findings'', no_match_findings h)]) tp) =
             Inr report"
  shows "fst (abort_no_match w h tp st) = Inr ()"
    and "status (results (snd (abort_no_match w h tp st))) = ''aborted''"
    and "findings (results (snd (abort_no_match w h tp st))) = Some (no_match_findings h)"
  using assms by (simp_all add: abort_no_match_cases results_cleanup)

text \<open>
  When the identification activity returns a result that has no summary, or a summary
  without \<open>total_matches\<close>, as the module's \<^verbatim>\<open>failed\<close> result is, the workflow records the
  step \<^verbatim>\<open>hash_identification\<close> with status \<^verbatim>\<open>success\<close> and takes the zero-match branch:
  what it does from there on is what it does after any result whose \<open>total_matches\<close> is 0,
  in every world. That branch, when its report activity returns, ends with status
  \<^verbatim>\<open>aborted\<close> and the synthetic Finding of the zero-match case.
\<close>

lemma failed_identification_taken_as_zero_matches:
  assumes "map_of kvs ''summary'' = None \<or>
           (\<exists>sm. map_of kvs ''summary'' = Some (PDict sm) \<and> map_of sm ''total_matches'' = None)"
  shows "after_hashid w h tp (PDict kvs) st =
           abort_no_match w h tp
             (append_step (StepRecord ''hash_identification'' (PStr ''success'')
                             [(''total_matches'', PInt 0)] None) st) \<and>
         (\<forall>r0 fs0.
            py_get2 r0 ''summary'' ''total_matches'' (PInt 0) = Inr (PInt 0) \<and>
            py_get r0 ''findings'' (PList []) = Inr fs0 \<longrightarrow>
              after_hashid w h tp (PDict kvs) st = after_hashid w h tp r0 st) \<and>
         last (steps (results (snd (after_hashid w h tp (PDict kvs) st)))) =
           StepRecord ''hash_identification'' (PStr ''success'')
             [(''total_matches'', PInt 0)] None \<and>
         (\<forall>report.
            activity w (calls st)
              (sarif_call (PDict [(''findings'', no_match_findings h)]) tp) = Inr report \<longrightarrow>
              fst (after_hashid w h tp (PDict kvs) st) = Inr () \<and>
              status (results (snd (after_hashid w h tp (PDict kvs) st))) = ''aborted'' \<and>
              findings (results (snd (after_hashid w h tp (PDict kvs) st))) =
                Some (no_match_findings h))"
proof -
  let ?st1 = "append_step (StepRecord ''hash_identification'' (PStr ''success'')
                             [(''total_matches'', PInt 0)] None) st"
  have tm: "py_get2 (PDict kvs) ''summary'' ''total_matches'' (PInt 0) = Inr (PInt 0)"
    using assms by (rule no_total_matches)
  have branch: "after_hashid w h tp (PDict kvs) st = abort_no_match w h tp ?st1"
    by (rule after_hashid_zero [OF tm]) simp_all
  have same: "after_hashid w h tp (PDict kvs) st = after_hashid w h tp r0 st"
    if "py_get2 r0 ''summary'' ''total_matches'' (PInt 0) = Inr (PInt 0)"
      and "py_get r0 ''findings'' (PList []) = Inr fs0" for r0 fs0
    using that by (simp add: branch after_hashid_zero)
  have step: "last (steps (results (snd (after_hashid w h tp (PDict kvs) st)))) =
           StepRecord ''hash_identification'' (PStr ''success'')
             [(''total_matches'', PInt 0)] None"
    by (simp add: branch steps_abort_no_match append_step_def)
  have ends: "fst (after_hashid w h tp (PDict kvs) st) = Inr () \<and>
              status (results (snd (after_hashid w h tp (PDict kvs) st))) = ''aborted'' \<and>
              findings (results (snd (after_hashid w h tp (PDict kvs) st))) =
                Some (no_match_findings h)"
    if "activity w (calls st)
          (sarif_call (PDict [(''findings'', no_match_findings h)]) tp) = Inr report" for report
  proof -
    from that have "activity w (calls ?st1)
          (sarif_call (PDict [(''findings'', no_match_findings h)]) tp) = Inr report"
      by (simp add: calls_append_step)
    then show ?thesis by (simp add: branch abort_no_match_returns)
  qed
  from branch same step ends show ?thesis by blast
qed

lemma identification_failed_dict:
  "identification_failed =
     PDict [(''status'', PStr ''failed''), (''findings'', PList []), (''summary'', PDict []),
            (''error'', PStr ''hashid crashed'')]"
  by (simp add: identification_failed_def module_defs md5_hash_def)

lemma failed_identification_example:
  "py_get identification_failed ''status'' PNone = Inr (PStr ''failed'') \<and>
   after_hashid (world_but []) md5_hash (PStr ''/cache/t1'') identification_failed
       (after_fetch (world_but []) ''t1'' (PStr ''/cache/t1'')) =
     after_hashid (world_but []) md5_hash (PStr ''/cache/t1'') (identified [])
       (after_fetch (world_but []) ''t1'' (PStr ''/cache/t1'')) \<and>
   status (results (snd (after_hashid (world_but []) md5_hash (PStr ''/cache/t1'')
       identification_failed (after_fetch (world_but []) ''t1'' (PStr ''/cache/t1''))))) =
     ''aborted''"
proof -
  let ?kvs = "[(''status'', PStr ''failed''), (''findings'', PList []), (''summary'', PDict []),
               (''error'', PStr ''hashid crashed'')]"
  have h: "map_of ?kvs ''summary'' = None \<or>
           (\<exists>sm. map_of ?kvs ''summary'' = Some (PDict sm) \<and> map_of sm ''total_matches'' = None)"
    by simp
  have z: "py_get2 (identified []) ''summary'' ''total_matches'' (PInt 0) = Inr (PInt 0) \<and>
           py_get (identified []) ''findings'' (PList []) = Inr (PList [])"
    by (simp add: identified_def module_defs md5_hash_def py_get2_def)
  have rep: "activity (world_but [])
               (calls (after_fetch (world_but []) ''t1'' (PStr ''/cache/t1'')))
               (sarif_call (PDict [(''findings'', no_match_findings md5_hash)])
                  (PStr ''/cache/t1'')) = Inr sample_report"
    by (simp add: world_but_def scripted_def all_return_def sarif_call_def)
  note inst = failed_identification_taken_as_zero_matches
         [OF h, of "world_but []" md5_hash "PStr ''/cache/t1''"
            "after_fetch (world_but []) ''t1'' (PStr ''/cache/t1'')"]
  from inst z have same:
    "after_hashid (world_but []) md5_hash (PStr ''/cache/t1'') (PDict ?kvs)
       (after_fetch (world_but []) ''t1'' (PStr ''/cache/t1'')) =
     after_hashid (world_but []) md5_hash (PStr ''/cache/t1'') (identified [])
       (after_fetch (world_but []) ''t1'' (PStr ''/cache/t1''))"
    by blast
  from inst rep have aborted:
    "status (results (snd (after_hashid (world_but []) md5_hash (PStr ''/cache/t1'')
       (PDict ?kvs) (after_fetch (world_but []) ''t1'' (PStr ''/cache/t1''))))) = ''aborted''"
    by blast
  have failed: "py_get identification_failed ''status'' PNone = Inr (PStr ''failed'')"
    by (simp add: identification_failed_dict)
  show ?thesis
    unfolding identification_failed_dict
    using same aborted by simp
qed

text \<open>
  In a world where the report activity returns, the run after a failed identification ends as
  the run after a genuine zero-match identification does: it returns \<^verbatim>\<open>aborted\<close> with the one
  Finding of title \<^verbatim>\<open>No Hash Type Identified\<close> and severity \<^verbatim>\<open>warning\<close>, the step
  \<^verbatim>\<open>hash_identification\<close> recorded with status \<^verbatim>\<open>success\<close>.
\<close>

lemma failed_identification_aborts_when_report_returns:
  "fst (hash_cracking_run (world_but [identification_fails_inside]) ''t1'' md5_hash None) =
     Returned \<and>
   results (snd (hash_cracking_run (world_but [identification_fails_inside])
                   ''t1'' md5_hash None)) =
     results (snd (hash_cracking_run (world_but [identifies []]) ''t1'' md5_hash None)) \<and>
   status (results (snd (hash_cracking_run (world_but [identification_fails_inside])
                           ''t1'' md5_hash None))) = ''aborted'' \<and>
   map (\<lambda>d. (py_get d ''title'' PNone, py_get d ''severity'' PNone))
     (case findings (results (snd (hash_cracking_run (world_but [identification_fails_inside])
                                     ''t1'' md5_hash None))) of
        Some (PList ds) \<Rightarrow> ds | _ \<Rightarrow> []) =
     [(Inr (PStr ''No Hash Type Identified''), Inr (PStr ''warning''))] \<and>
   steps (results (snd (hash_cracking_run (world_but [identification_fails_inside])
                          ''t1'' md5_hash None))) =
     [StepRecord ''download_target'' (PStr ''success'')
        [(''target_path'', PStr ''/cache/t1'')] None,
      StepRecord ''hash_identification'' (PStr ''success'') [(''total_matches'', PInt 0)] None]"
  by (simp add: run_defs call_defs world_defs module_defs)

text \<open>
  Claim C10. When the identification activity returns the module's \<^verbatim>\<open>failed\<close> result (no
  findings, no \<open>total_matches\<close>), the workflow records the step \<^verbatim>\<open>hash_identification\<close> with
  status \<^verbatim>\<open>success\<close> and takes the zero-match branch
  (\<open>failed_identification_taken_as_zero_matches\<close>), and the run should end as a genuine
  zero-match one: status \<^verbatim>\<open>aborted\<close> with the Finding \<^verbatim>\<open>No Hash Type Identified\<close>
  (\<open>failed_identification_aborts_when_report_returns\<close>: so it does where the report activity
  of the branch returns). In the run below the identification returns the \<^verbatim>\<open>failed\<close> result,
  the step is recorded with status \<^verbatim>\<open>success\<close>, the report activity raises, and the run ends
  by that exception with status \<^verbatim>\<open>error\<close>, no Finding and no cleanup. The defect is the one
  of claim C1: a report generated outside any \<^verbatim>\<open>try\<close> of its own.
\<close>

theorem failed_identification_error_when_report_raises:
  "py_get identification_failed ''status'' PNone = Inr (PStr ''failed'') \<and>
   py_get2 identification_failed ''summary'' ''total_matches'' (PInt 0) = Inr (PInt 0) \<and>
   steps (results (snd (hash_cracking_run
            (world_but [identification_fails_inside, report_fails]) ''t1'' md5_hash None))) =
     [StepRecord ''download_target'' (PStr ''success'')
        [(''target_path'', PStr ''/cache/t1'')] None,
      StepRecord ''hash_identification'' (PStr ''success'') [(''total_matches'', PInt 0)] None,
      StepRecord ''error'' (PStr ''failed'') [] (Some (ActivityError ''report failed''))] \<and>
   fst (hash_cracking_run (world_but [identification_fails_inside, report_fails])
          ''t1'' md5_hash None) = Raised (ActivityError ''report failed'') \<and>
   status (results (snd (hash_cracking_run
            (world_but [identification_fails_inside, report_fails]) ''t1'' md5_hash None))) =
     ''error'' \<and>
   findings (results (snd (hash_cracking_run
            (world_but [identification_fails_inside, report_fails]) ''t1'' md5_hash None))) =
     None \<and>
   invoked ''run_hashcat'' (snd (hash_cracking_run
            (world_but [identification_fails_inside, report_fails]) ''t1'' md5_hash None)) = [] \<and>
   invoked ''cleanup_cache'' (snd (hash_cracking_run
            (world_but [identification_fails_inside, report_fails]) ''t1'' md5_hash None)) = []"
  by (simp add: invoked_def entries_def run_defs call_defs world_defs module_defs)

section \<open>Failures of best-effort steps\<close>

text \<open>
  Binary analysis: once the fetch and the Capa activity have returned, with a result the
  workflow can read, the run returns with status \<^verbatim>\<open>success\<close>, whatever the report, the upload
  and the cleanup do.
\<close>

lemma calls_llm_after_fetch:
  "calls (llm_after_fetch w tid tp) = [get_target_call w tid ''shared'']"
  by (simp add: llm_after_fetch_def calls_def trace_append_step get_target_def
      trace_execute_activity)

lemma binary_analysis_tolerates_best_effort_failures:
  assumes "activity w [] (get_target_call w tid ''isolated'') = Inr tp"
    and "activity w [get_target_call w tid ''isolated''] (capa_call tp tf) = Inr fr"
    and "py_get2 fr ''summary'' ''capabilities_found'' (PInt 0) = Inr a"
    and "py_get2 fr ''summary'' ''execution_time'' (PInt 0) = Inr b"
  shows "fst (binary_analysis_run w tid tf) = Returned \<and>
         status (results (snd (binary_analysis_run w tid tf))) = ''success''"
proof -
  from assms(3) obtain kvs where fr: "fr = PDict kvs" by (auto dest: py_get2_dict)
  have "binary_analysis_run w tid tf =
          finish (binary_analysis_body w tf tp (after_fetch w tid tp))"
    by (simp add: binary_analysis_run_cases assms(1))
  also have "binary_analysis_body w tf tp (after_fetch w tid tp) =
      mark_success (PDict kvs)
        (cleanup w tp
          (upload_step w (PDict kvs)
            (report_step w (binary_report_call (PDict kvs) tp)
              (append_step
                 (StepRecord ''fuzzing'' (PStr ''success'')
                    [(''capabilities_found'', a), (''execution_time'', b)] None)
                 (snd (execute_activity w (capa_call tp tf) (after_fetch w tid tp)))))))"
    using assms(2-4) fr by (simp add: binary_analysis_body_cases calls_after_fetch)
  finally show ?thesis
    by (simp add: finish_return mark_success_dict)
qed

text \<open>
  LLM secret detection: the upload and the cleanup are tolerated, the report is not. Once the
  fetch and the scan have returned, the run returns with status \<^verbatim>\<open>success\<close> if the report
  activity returns, and ends by the report's exception with status \<^verbatim>\<open>error\<close> if it raises.
\<close>

lemma llm_run_after_scan:
  assumes "activity w [] (get_target_call w tid ''shared'') = Inr tp"
    and "activity w [get_target_call w tid ''shared''] (llm_scan_call p tp) = Inr (PDict kvs)"
    and "py_get (PDict kvs) ''findings'' (PList []) = Inr fs"
    and "py_len fs = Inr n"
  shows "llm_secret_detection_run w tid p =
     finish
       (let st1 = snd (execute_activity w (llm_scan_call p tp) (llm_after_fetch w tid tp));
            st2 = append_step
                    (StepRecord ''llm_scan'' (PStr ''success'')
                       [(''secrets_found'', PInt (int n))] None) st1;
            st3 = snd (execute_activity w (llm_report_call p fs) st2)
        in case activity w [get_target_call w tid ''shared'', llm_scan_call p tp]
                  (llm_report_call p fs) of
             Inl e \<Rightarrow> (Inl e, st3)
           | Inr sarif_report \<Rightarrow>
               llm_mark_success (PDict kvs) sarif_report
                 (snd (execute_activity w (cleanup_call tp ''shared'')
                         (upload_step w (PDict kvs) st3))))"
proof -
  have h: "calls (append_step
                    (StepRecord ''llm_scan'' (PStr ''success'')
                       [(''secrets_found'', PInt (int n))] None)
                    (snd (execute_activity w (llm_scan_call p tp) (llm_after_fetch w tid tp)))) =
           [get_target_call w tid ''shared'', llm_scan_call p tp]"
    by (simp add: calls_def trace_append_step trace_execute_activity
        calls_llm_after_fetch [unfolded calls_def])
  have "llm_body w p tp (llm_after_fetch w tid tp) =
     (let st1 = snd (execute_activity w (llm_scan_call p tp) (llm_after_fetch w tid tp));
            st2 = append_step
                    (StepRecord ''llm_scan'' (PStr ''success'')
                       [(''secrets_found'', PInt (int n))] None) st1;
            st3 = snd (execute_activity w (llm_report_call p fs) st2)
        in case activity w [get_target_call w tid ''shared'', llm_scan_call p tp]
                  (llm_report_call p fs) of
             Inl e \<Rightarrow> (Inl e, st3)
           | Inr sarif_report \<Rightarrow>
               llm_mark_success (PDict kvs) sarif_report
                 (snd (execute_activity w (cleanup_call tp ''shared'')
                         (upload_step w (PDict kvs) st3))))"
    using assms(3,4) h
    by (simp add: llm_body_scan_returns [where scan_results = "PDict kvs"]
        calls_llm_after_fetch assms(2) Let_def)
  then show ?thesis by (simp add: llm_secret_detection_run_cases assms(1))
qed

lemma llm_run_report_returns:
  assumes "activity w [] (get_target_call w tid ''shared'') = Inr tp"
    and "activity w [get_target_call w tid ''shared''] (llm_scan_call p tp) = Inr (PDict kvs)"
    and "py_get (PDict kvs) ''findings'' (PList []) = Inr fs"
    and "py_len fs = Inr n"
    and "activity w [get_target_call w tid ''shared'', llm_scan_call p tp]
           (llm_report_call p fs) = Inr sarif_report"
  shows "fst (llm_secret_detection_run w tid p) = Returned \<and>
         status (results (snd (llm_secret_detection_run w tid p))) = ''success''"
  unfolding llm_run_after_scan [OF assms(1-4)]
  by (simp add: assms(5) Let_def finish_return llm_mark_success_dict)

lemma llm_run_report_raises:
  assumes "activity w [] (get_target_call w tid ''shared'') = Inr tp"
    and "activity w [get_target_call w tid ''shared''] (llm_scan_call p tp) = Inr (PDict kvs)"
    and "py_get (PDict kvs) ''findings'' (PList []) = Inr fs"
    and "py_len fs = Inr n"
    and "activity w [get_target_call w tid ''shared'', llm_scan_call p tp]
           (llm_report_call p fs) = Inl e"
  shows "fst (llm_secret_detection_run w tid p) = Raised e \<and>
         status (results (snd (llm_secret_detection_run w tid p))) = ''error''"
  unfolding llm_run_after_scan [OF assms(1-4)]
  by (simp add: assms(5) Let_def finish_raise status_handle_failure)

text \<open>
  Claim C7. Once the critical steps of a run have completed, a failure of the report or of
  the upload should leave the status \<^verbatim>\<open>success\<close>. The hash-cracking and the binary-analysis
  workflow do so (\<open>hash_cracking_success_rule\<close>,
  \<open>binary_analysis_tolerates_best_effort_failures\<close>), and so does the LLM workflow for the
  upload and the cleanup (\<open>llm_run_report_returns\<close>). Its report is generated outside any
  \<^verbatim>\<open>try\<close> of its own: in the run below the fetch and the scan return, the report activity
  raises, and the run ends by that exception with status \<^verbatim>\<open>error\<close>, without upload or cleanup.
\<close>

theorem llm_report_failure_ends_run_in_error:
  "map (\<lambda>i. (activity_name (inv_call i), returned i))
     (trace (snd (llm_secret_detection_run (world_but [llm_report_fails]) ''t1'' no_params))) =
     [(''get_target'', True), (''scan_with_llm'', True), (''llm_generate_sarif'', False)] \<and>
   fst (llm_secret_detection_run (world_but [llm_report_fails]) ''t1'' no_params) =
     Raised (ActivityError ''report failed'') \<and>
   status (results (snd (llm_secret_detection_run (world_but [llm_report_fails])
                           ''t1'' no_params))) = ''error'' \<and>
   fst (binary_analysis_run (world_but [binary_report_fails, upload_fails]) ''t1'' ''a.bin'') =
     Returned \<and>
   status (results (snd (binary_analysis_run (world_but [binary_report_fails, upload_fails])
                           ''t1'' ''a.bin''))) = ''success''"
  by (simp add: returned_def run_defs call_defs world_defs)

end
